theory Spec2Isabelle
  imports Main "HOL-Library.AList" "HOL-Library.List_Lexorder" "HOL-Library.Char_ord"
    "HOL-Library.Sublist"
begin

section \<open>Python values, errors and strings\<close>

text \<open>
  The layer is dynamically typed. The values that flow through tool parameters,
  catalog metadata and lesson entries are modelled as JSON scalars; floats and
  nested containers are outside the model. Strings are byte strings (UTF-8), which
  is all that concatenation and equality need.
\<close>

datatype pyval = PNone | PBool bool | PInt int | PStr string

text \<open>
  Exceptions as values. \<open>ExternalError\<close> stands for any exception raised by a
  collaborator (the completion oracle, the vector store, the JSON parser) that is
  not one of the named kinds.
\<close>

datatype py_error = TypeError | ValueError | AttributeError | IndexError
  | ExternalError string

type_synonym pydict = "(string \<times> pyval) list"

abbreviation NL :: string where
  "NL \<equiv> [CHR 0x0A]"

abbreviation QT :: string where
  "QT \<equiv> [CHR 0x27]"

text \<open>Python truthiness: \<open>if x:\<close>.\<close>

fun truthy :: "pyval \<Rightarrow> bool" where
  "truthy PNone = False"
| "truthy (PBool b) = b"
| "truthy (PInt i) = (i \<noteq> 0)"
| "truthy (PStr s) = (s \<noteq> [])"

text \<open>Truthiness of an \<open>Optional[str]\<close>: neither \<open>None\<close> nor the empty string.\<close>

fun truthy_opt :: "string option \<Rightarrow> bool" where
  "truthy_opt None = False"
| "truthy_opt (Some s) = (s \<noteq> [])"

text \<open>Decimal rendering of integers, as \<open>str\<close> and f-strings do.\<close>

fun str_nat :: "nat \<Rightarrow> string" where
  "str_nat n =
     (if n < 10 then [''0123456789'' ! n]
      else str_nat (n div 10) @ [''0123456789'' ! (n mod 10)])"

declare str_nat.simps [simp del]

definition str_int :: "int \<Rightarrow> string" where
  "str_int i = (if i < 0 then ''-'' @ str_nat (nat (- i)) else str_nat (nat i))"

text \<open>\<open>str(x)\<close>, which is also what \<open>f"{x}"\<close> inserts.\<close>

fun py_str :: "pyval \<Rightarrow> string" where
  "py_str PNone = ''None''"
| "py_str (PBool b) = (if b then ''True'' else ''False'')"
| "py_str (PInt i) = str_int i"
| "py_str (PStr s) = s"

text \<open>\<open>d.get(k, default)\<close> on a dictionary with string keys.\<close>

definition dict_get :: "pydict \<Rightarrow> string \<Rightarrow> pyval \<Rightarrow> pyval" where
  "dict_get d k dflt = (case map_of d k of None \<Rightarrow> dflt | Some v \<Rightarrow> v)"

text \<open>\<open>sep.join(xs)\<close>.\<close>

fun join :: "string \<Rightarrow> string list \<Rightarrow> string" where
  "join sep [] = []"
| "join sep [x] = x"
| "join sep (x # y # ys) = x @ sep @ join sep (y # ys)"

text \<open>
  What \<open>json.loads\<close> can hand to this layer: an object of scalars (the arguments
  of a tool call), an array of such objects (a course's lessons list), or a scalar.
\<close>

datatype json_doc = JObject pydict | JArray "pydict list" | JScalar pyval

text \<open>
  The Python runtime services the layer calls and that are not its own code:
  \<open>json.loads\<close>, and the rendering \<open>str(e)\<close> of a caught exception.
\<close>

record runtime =
  json_loads :: "string \<Rightarrow> py_error + json_doc"
  exception_str :: "py_error \<Rightarrow> string"

section \<open>The retrieval backend\<close>

text \<open>
  Modelled from the spec: the module \<open>vector_store\<close> (\<open>VectorStore\<close>,
  \<open>SearchResults\<close>) is imported by \<open>search_tools.py\<close> and is not among the
  sources. A search result set holds the ordered text chunks, the parallel sequence
  of metadata mappings (course title, lesson number) and an optional error; it is
  empty when it has no chunk.
\<close>

record hit_metadata =
  course_title :: "string option"
  lesson_number :: "int option"

record search_results =
  documents :: "string list"
  metadata :: "hit_metadata list"
  error :: "string option"

text \<open>
  Modelled from the spec: \<open>SearchResults.is_empty()\<close>, whose code is in the absent
  module; a result set is empty when it returned no chunk.
\<close>

definition is_empty :: "search_results \<Rightarrow> bool" where
  "is_empty results = (documents results = [])"

record catalog_result =
  metadatas :: "pydict list option"

text \<open>
  The store is a parameter of the model: the four capabilities the tools call, each
  of which may raise.
\<close>

record vector_store =
  search :: "pyval \<Rightarrow> pyval \<Rightarrow> pyval \<Rightarrow> py_error + search_results"
  get_lesson_link :: "string \<Rightarrow> int \<Rightarrow> py_error + string option"
  resolve_course_name :: "pyval \<Rightarrow> py_error + string option"
  course_catalog_get :: "string list \<Rightarrow> py_error + catalog_result option"

section \<open>Tool definitions\<close>

record property_schema =
  prop_type :: string
  prop_description :: string

record function_definition =
  fn_name :: "string option"
  fn_description :: string
  fn_properties :: "(string \<times> property_schema) list"
  fn_required :: "string list"

text \<open>
  The two shapes \<open>register_tool\<close> tells apart: a definition with a nested
  \<open>"function"\<close> entry, and one that carries its \<open>"name"\<close> at the top.
\<close>

datatype tool_definition = FunctionFormat function_definition
  | PlainFormat "string option"

section \<open>CourseSearchTool\<close>

definition CourseSearchTool_definition :: tool_definition where
  "CourseSearchTool_definition = FunctionFormat
     \<lparr> fn_name = Some ''search_course_content'',
       fn_description =
         ''Search course materials with smart course name matching and lesson filtering'',
       fn_properties =
         [(''query'', \<lparr> prop_type = ''string'',
             prop_description = ''What to search for in the course content'' \<rparr>),
          (''course_name'', \<lparr> prop_type = ''string'',
             prop_description =
               ''Course title (partial matches work, e.g. 'MCP', 'Introduction')'' \<rparr>),
          (''lesson_number'', \<lparr> prop_type = ''integer'',
             prop_description =
               ''Specific lesson number to search within (e.g. 1, 2, 3)'' \<rparr>)],
       fn_required = [''query''] \<rparr>"

text \<open>The title a hit is shown under: \<open>meta.get('course_title', 'unknown')\<close>.\<close>

definition title_of :: "hit_metadata \<Rightarrow> string" where
  "title_of meta = (case course_title meta of None \<Rightarrow> ''unknown'' | Some t \<Rightarrow> t)"

text \<open>The \<open>" - Lesson n"\<close> suffix, added when \<open>lesson_num is not None\<close>.\<close>

definition lesson_suffix :: "int option \<Rightarrow> string" where
  "lesson_suffix lesson_num =
     (case lesson_num of None \<Rightarrow> [] | Some n \<Rightarrow> '' - Lesson '' @ str_int n)"

definition header_of :: "string \<Rightarrow> int option \<Rightarrow> string option \<Rightarrow> string" where
  "header_of title lesson_num lesson_link =
     (if truthy_opt lesson_link
      then ''['' @ title @ lesson_suffix lesson_num @ ''](''  @ the lesson_link @ '')''
      else ''['' @ title @ lesson_suffix lesson_num @ '']'')"

definition source_of :: "string \<Rightarrow> int option \<Rightarrow> string option \<Rightarrow> string" where
  "source_of title lesson_num lesson_link =
     (if truthy_opt lesson_link
      then ''['' @ title @ lesson_suffix lesson_num @ ''](''  @ the lesson_link @ '')''
      else title @ lesson_suffix lesson_num)"

text \<open>
  The link of a hit: looked up in the store when the hit has a lesson number,
  \<open>None\<close> otherwise.
\<close>

definition lesson_link_of :: "vector_store \<Rightarrow> hit_metadata \<Rightarrow> py_error + string option" where
  "lesson_link_of st meta =
     (case lesson_number meta of
        None \<Rightarrow> Inr None
      | Some n \<Rightarrow> get_lesson_link st (title_of meta) n)"

text \<open>
  The loop of \<open>_format_results\<close> over \<open>zip(results.documents, results.metadata)\<close>,
  with the two lists it appends to. A raising link lookup leaves the loop.
\<close>

fun format_loop ::
  "vector_store \<Rightarrow> (string \<times> hit_metadata) list \<Rightarrow> string list \<Rightarrow> string list
     \<Rightarrow> py_error + (string list \<times> string list)" where
  "format_loop st [] formatted sources = Inr (formatted, sources)"
| "format_loop st ((doc, meta) # rest) formatted sources =
     (case lesson_link_of st meta of
        Inl e \<Rightarrow> Inl e
      | Inr lesson_link \<Rightarrow>
          format_loop st rest
            (formatted @ [header_of (title_of meta) (lesson_number meta) lesson_link @ NL @ doc])
            (sources @ [source_of (title_of meta) (lesson_number meta) lesson_link]))"

text \<open>
  \<open>_format_results\<close>: the text for the oracle and the new value of
  \<open>self.last_sources\<close> (the old value \<open>prev\<close> stays when the loop raises).
\<close>

definition format_results ::
  "vector_store \<Rightarrow> string list \<Rightarrow> search_results \<Rightarrow> (py_error + string) \<times> string list" where
  "format_results st prev results =
     (case format_loop st (zip (documents results) (metadata results)) [] [] of
        Inl e \<Rightarrow> (Inl e, prev)
      | Inr (formatted, sources) \<Rightarrow> (Inr (join (NL @ NL) formatted), sources))"

text \<open>
  \<open>CourseSearchTool.execute(query, course_name, lesson_number)\<close>, on the store and
  the current \<open>last_sources\<close>; it returns the result and the new \<open>last_sources\<close>.
\<close>

definition filter_info :: "pyval \<Rightarrow> pyval \<Rightarrow> string" where
  "filter_info course_name lesson_num =
     (if truthy course_name then '' in course '' @ QT @ py_str course_name @ QT else [])
     @ (if truthy lesson_num then '' in lesson '' @ py_str lesson_num else [])"

definition CourseSearchTool_execute ::
  "vector_store \<Rightarrow> string list \<Rightarrow> pyval \<Rightarrow> pyval \<Rightarrow> pyval
     \<Rightarrow> (py_error + string) \<times> string list" where
  "CourseSearchTool_execute st prev query course_name lesson_num =
     (case search st query course_name lesson_num of
        Inl e \<Rightarrow> (Inl e, prev)
      | Inr results \<Rightarrow>
          if truthy_opt (error results) then (Inr (the (error results)), prev)
          else if is_empty results
          then (Inr (''No relevant content found'' @ filter_info course_name lesson_num @ ''.''),
                prev)
          else format_results st prev results)"

section \<open>CourseOutlineTool\<close>

definition CourseOutlineTool_definition :: tool_definition where
  "CourseOutlineTool_definition = FunctionFormat
     \<lparr> fn_name = Some ''get_course_outline'',
       fn_description =
         ''Get the complete outline of a specific course including all lessons'',
       fn_properties =
         [(''course_name'', \<lparr> prop_type = ''string'',
             prop_description =
               ''Course title or partial course name to get the outline for'' \<rparr>)],
       fn_required = [''course_name''] \<rparr>"

text \<open>The pictographs of the outline, as the UTF-8 bytes of the source literals.\<close>

definition GRADUATION_CAP :: string where
  "GRADUATION_CAP = [CHR 0xF0, CHR 0x9F, CHR 0x8E, CHR 0x93]"

definition TEACHER :: string where
  "TEACHER = [CHR 0xF0, CHR 0x9F, CHR 0x91, CHR 0xA8, CHR 0xE2, CHR 0x80, CHR 0x8D,
              CHR 0xF0, CHR 0x9F, CHR 0x8F, CHR 0xAB]"

definition LINK_SIGN :: string where
  "LINK_SIGN = [CHR 0xF0, CHR 0x9F, CHR 0x94, CHR 0x97]"

definition BOOKS :: string where
  "BOOKS = [CHR 0xF0, CHR 0x9F, CHR 0x93, CHR 0x9A]"

definition OPEN_BOOK :: string where
  "OPEN_BOOK = [CHR 0xF0, CHR 0x9F, CHR 0x93, CHR 0x96]"

definition INFO_SIGN :: string where
  "INFO_SIGN = [CHR 0xE2, CHR 0x84, CHR 0xB9, CHR 0xEF, CHR 0xB8, CHR 0x8F]"

text \<open>
  \<open>sorted(lessons, key=lambda x: x.get('lesson_number', 0))\<close>. Python compares
  numbers (\<open>bool\<close> included) with numbers and strings with strings; \<open>None\<close> is
  ordered with nothing, and any other pairing raises \<open>TypeError\<close>. A list of at
  most one element is sorted without a comparison. The sort is stable.
\<close>

definition lesson_key :: "pydict \<Rightarrow> pyval" where
  "lesson_key x = dict_get x ''lesson_number'' (PInt 0)"

fun is_number :: "pyval \<Rightarrow> bool" where
  "is_number (PInt i) = True"
| "is_number (PBool b) = True"
| "is_number v = False"

fun number_of :: "pyval \<Rightarrow> int" where
  "number_of (PInt i) = i"
| "number_of (PBool b) = (if b then 1 else 0)"
| "number_of v = 0"

fun is_str :: "pyval \<Rightarrow> bool" where
  "is_str (PStr s) = True"
| "is_str v = False"

definition sorted_lessons :: "pydict list \<Rightarrow> py_error + pydict list" where
  "sorted_lessons ls =
     (if length ls \<le> 1 then Inr ls
      else if list_all (\<lambda>x. is_number (lesson_key x)) ls
      then Inr (sort_key (\<lambda>x. number_of (lesson_key x)) ls)
      else if list_all (\<lambda>x. is_str (lesson_key x)) ls
      then Inr (sort_key (\<lambda>x. py_str (lesson_key x)) ls)
      else Inl TypeError)"

text \<open>
  The value \<open>lessons\<close> is whatever \<open>json.loads\<close> returned. \<open>if lessons:\<close> is its
  truthiness; iterating it for the sort yields the entries of an array, the keys of an
  object or the characters of a string (neither of which has \<open>.get\<close>), and raises
  on any other scalar.
\<close>

fun truthy_doc :: "json_doc \<Rightarrow> bool" where
  "truthy_doc (JObject d) = (d \<noteq> [])"
| "truthy_doc (JArray ls) = (ls \<noteq> [])"
| "truthy_doc (JScalar v) = truthy v"

fun sorted_doc :: "json_doc \<Rightarrow> py_error + pydict list" where
  "sorted_doc (JArray ls) = sorted_lessons ls"
| "sorted_doc (JObject d) = (if d = [] then Inr [] else Inl AttributeError)"
| "sorted_doc (JScalar (PStr s)) = (if s = [] then Inr [] else Inl AttributeError)"
| "sorted_doc (JScalar v) = Inl TypeError"

definition lesson_line :: "pydict \<Rightarrow> string" where
  "lesson_line lesson =
     (let lesson_num = dict_get lesson ''lesson_number'' PNone;
          lesson_title = dict_get lesson ''lesson_title'' (PStr ''Untitled'');
          lesson_link = dict_get lesson ''lesson_link'' PNone
      in if truthy lesson_link
         then ''**'' @ py_str lesson_num @ ''.** '' @ OPEN_BOOK @ '' **['' @ py_str lesson_title
                @ '']('' @ py_str lesson_link @ '')**''
         else ''**'' @ py_str lesson_num @ ''.** '' @ OPEN_BOOK @ '' **'' @ py_str lesson_title
                @ ''**'')"

definition NO_LESSONS_NOTICE :: string where
  "NO_LESSONS_NOTICE = INFO_SIGN @ '' No lessons available for this course.''"

text \<open>The lines appended before the lessons section.\<close>

definition outline_head :: "pyval \<Rightarrow> pyval \<Rightarrow> pyval \<Rightarrow> string list" where
  "outline_head title instructor course_link =
     [''---'', []]
     @ [if truthy course_link
        then ''# '' @ GRADUATION_CAP @ '' **['' @ py_str title @ '']('' @ py_str course_link
               @ '')**''
        else ''# '' @ GRADUATION_CAP @ '' **'' @ py_str title @ ''**'']
     @ [[]]
     @ (if truthy instructor
        then [TEACHER @ '' **Instructor:** '' @ py_str instructor, []] else [])
     @ (if truthy course_link
        then [LINK_SIGN @ '' **Course Link:** [Access Course]('' @ py_str course_link @ '')'', []]
        else [])
     @ [''---'', []]"

definition format_course_outline ::
  "pyval \<Rightarrow> pyval \<Rightarrow> pyval \<Rightarrow> json_doc \<Rightarrow> py_error + string" where
  "format_course_outline title instructor course_link lessons =
     (if truthy_doc lessons
      then (case sorted_doc lessons of
              Inl e \<Rightarrow> Inl e
            | Inr sorted_ls \<Rightarrow>
                Inr (join NL
                  (outline_head title instructor course_link
                   @ [''## '' @ BOOKS @ '' **Course Lessons**'', []]
                   @ map lesson_line sorted_ls
                   @ [[], ''---''])))
      else Inr (join NL
             (outline_head title instructor course_link
              @ [''## '' @ BOOKS @ '' **Course Lessons**'', [], NO_LESSONS_NOTICE]
              @ [[], ''---''])))"

text \<open>
  The body of the \<open>try\<close> block of \<open>CourseOutlineTool.execute\<close>, for a resolved
  title: the catalog lookup, the parse of the stored lessons and the formatting.
\<close>

definition outline_of_metadata ::
  "runtime \<Rightarrow> string \<Rightarrow> pydict \<Rightarrow> py_error + string" where
  "outline_of_metadata rt exact_course_title md =
     (let title = dict_get md ''title'' (PStr exact_course_title);
          instructor = dict_get md ''instructor'' (PStr ''Unknown'');
          course_link = dict_get md ''course_link'' PNone;
          lessons_json = dict_get md ''lessons_json'' PNone
      in if truthy lessons_json
         then (case lessons_json of
                 PStr s \<Rightarrow>
                   (case json_loads rt s of
                      Inl e \<Rightarrow> Inl e
                    | Inr lessons \<Rightarrow> format_course_outline title instructor course_link lessons)
               | _ \<Rightarrow> Inl TypeError)
         else format_course_outline title instructor course_link (JArray []))"

definition outline_try ::
  "runtime \<Rightarrow> vector_store \<Rightarrow> string \<Rightarrow> py_error + string" where
  "outline_try rt st exact_course_title =
     (case course_catalog_get st [exact_course_title] of
        Inl e \<Rightarrow> Inl e
      | Inr results \<Rightarrow>
          (case results of
             None \<Rightarrow> Inr (''Course metadata not found for '' @ QT @ exact_course_title @ QT)
           | Some r \<Rightarrow>
               (case metadatas r of
                  None \<Rightarrow> Inr (''Course metadata not found for '' @ QT @ exact_course_title @ QT)
                | Some [] \<Rightarrow>
                    Inr (''Course metadata not found for '' @ QT @ exact_course_title @ QT)
                | Some (md # _) \<Rightarrow> outline_of_metadata rt exact_course_title md)))"

text \<open>
  \<open>CourseOutlineTool.execute(course_name)\<close>, with the calls it makes to the store
  in the order it makes them.
\<close>

datatype store_call = ResolveCourseName pyval | CatalogGet "string list"

definition CourseOutlineTool_execute_traced ::
  "runtime \<Rightarrow> vector_store \<Rightarrow> pyval \<Rightarrow> (py_error + string) \<times> store_call list" where
  "CourseOutlineTool_execute_traced rt st course_name =
     (case resolve_course_name st course_name of
        Inl e \<Rightarrow> (Inl e, [ResolveCourseName course_name])
      | Inr exact_course_title \<Rightarrow>
          if \<not> truthy_opt exact_course_title
          then (Inr (''No course found matching '' @ QT @ py_str course_name @ QT),
                [ResolveCourseName course_name])
          else (case outline_try rt st (the exact_course_title) of
                  Inl e \<Rightarrow> Inr (''Error retrieving course outline: '' @ exception_str rt e)
                | Inr s \<Rightarrow> Inr s,
                [ResolveCourseName course_name, CatalogGet [the exact_course_title]]))"

definition CourseOutlineTool_execute ::
  "runtime \<Rightarrow> vector_store \<Rightarrow> pyval \<Rightarrow> py_error + string" where
  "CourseOutlineTool_execute rt st course_name =
     fst (CourseOutlineTool_execute_traced rt st course_name)"

section \<open>Tools and the ToolManager\<close>

text \<open>
  A tool is one of the two classes of the module, or any other implementation of the
  abstract \<open>Tool\<close>: its definition, its \<open>execute\<close> as a function of the keyword
  arguments, and its \<open>last_sources\<close> attribute when it has one.
\<close>

datatype tool =
    CourseSearchTool vector_store "string list"
  | CourseOutlineTool vector_store
  | OtherTool tool_definition "pydict \<Rightarrow> py_error + string" "string list option"

fun get_tool_definition :: "tool \<Rightarrow> tool_definition" where
  "get_tool_definition (CourseSearchTool st srcs) = CourseSearchTool_definition"
| "get_tool_definition (CourseOutlineTool st) = CourseOutlineTool_definition"
| "get_tool_definition (OtherTool d f srcs) = d"

text \<open>\<open>hasattr(tool, 'last_sources')\<close> and the attribute's value.\<close>

fun last_sources :: "tool \<Rightarrow> string list option" where
  "last_sources (CourseSearchTool st srcs) = Some srcs"
| "last_sources (CourseOutlineTool st) = None"
| "last_sources (OtherTool d f srcs) = srcs"

text \<open>
  Binding \<open>**kwargs\<close> to a signature: every keyword must be a parameter, and every
  parameter without a default must be given; otherwise the call raises \<open>TypeError\<close>.
\<close>

definition binds :: "pydict \<Rightarrow> string list \<Rightarrow> string list \<Rightarrow> bool" where
  "binds kwargs required optional =
     (list_all (\<lambda>k. k \<in> set (required @ optional)) (map fst kwargs)
      \<and> list_all (\<lambda>k. k \<in> set (map fst kwargs)) required)"

text \<open>\<open>tool.execute(**kwargs)\<close>: the result and the tool afterwards.\<close>

fun execute :: "runtime \<Rightarrow> tool \<Rightarrow> pydict \<Rightarrow> (py_error + string) \<times> tool" where
  "execute rt (CourseSearchTool st srcs) kwargs =
     (if binds kwargs [''query''] [''course_name'', ''lesson_number'']
      then (case CourseSearchTool_execute st srcs
                   (dict_get kwargs ''query'' PNone)
                   (dict_get kwargs ''course_name'' PNone)
                   (dict_get kwargs ''lesson_number'' PNone) of
              (r, srcs') \<Rightarrow> (r, CourseSearchTool st srcs'))
      else (Inl TypeError, CourseSearchTool st srcs))"
| "execute rt (CourseOutlineTool st) kwargs =
     (if binds kwargs [''course_name''] []
      then (CourseOutlineTool_execute rt st (dict_get kwargs ''course_name'' PNone),
            CourseOutlineTool st)
      else (Inl TypeError, CourseOutlineTool st))"
| "execute rt (OtherTool d f srcs) kwargs = (f kwargs, OtherTool d f srcs)"

text \<open>
  The registry \<open>self.tools\<close>: a Python \<open>dict\<close>, which keeps insertion order and
  leaves a key in its place when its value is replaced.
\<close>

record tool_manager =
  tools :: "(string \<times> tool) list"

definition ToolManager_init :: tool_manager where
  "ToolManager_init = \<lparr> tools = [] \<rparr>"

definition tool_name_of :: "tool_definition \<Rightarrow> string option" where
  "tool_name_of tool_def =
     (case tool_def of FunctionFormat f \<Rightarrow> fn_name f | PlainFormat n \<Rightarrow> n)"

definition register_tool :: "tool_manager \<Rightarrow> tool \<Rightarrow> py_error + tool_manager" where
  "register_tool tm t =
     (let tool_name = tool_name_of (get_tool_definition t)
      in if \<not> truthy_opt tool_name then Inl ValueError
         else Inr (tm\<lparr> tools := AList.update (the tool_name) t (tools tm) \<rparr>))"

definition get_tool_definitions :: "tool_manager \<Rightarrow> tool_definition list" where
  "get_tool_definitions tm = map (\<lambda>(name, t). get_tool_definition t) (tools tm)"

text \<open>
  \<open>execute_tool(tool_name, **kwargs)\<close>, called with a tool name and a mapping
  of keyword arguments: the result and the registry afterwards. The method binds
  \<open>self\<close> and \<open>tool_name\<close> itself, so a mapping that holds either key makes the
  call raise \<open>TypeError\<close> before the body runs. The tool object is mutated in place,
  so its entry keeps its position.
\<close>

definition execute_tool ::
  "runtime \<Rightarrow> tool_manager \<Rightarrow> string \<Rightarrow> pydict \<Rightarrow> (py_error + string) \<times> tool_manager" where
  "execute_tool rt tm tool_name kwargs =
     (if ''self'' \<in> set (map fst kwargs) \<or> ''tool_name'' \<in> set (map fst kwargs)
      then (Inl TypeError, tm)
      else (case map_of (tools tm) tool_name of
              None \<Rightarrow> (Inr (''Tool '' @ QT @ tool_name @ QT @ '' not found''), tm)
            | Some t \<Rightarrow>
                (case execute rt t kwargs of
                   (r, t') \<Rightarrow> (r, tm\<lparr> tools := AList.update tool_name t' (tools tm) \<rparr>))))"

text \<open>The loop of \<open>get_last_sources\<close> over \<open>self.tools.values()\<close>.\<close>

fun first_sources :: "tool list \<Rightarrow> string list" where
  "first_sources [] = []"
| "first_sources (t # ts) =
     (case last_sources t of
        None \<Rightarrow> first_sources ts
      | Some srcs \<Rightarrow> if srcs \<noteq> [] then srcs else first_sources ts)"

definition get_last_sources :: "tool_manager \<Rightarrow> string list" where
  "get_last_sources tm = first_sources (map snd (tools tm))"

fun reset_tool :: "tool \<Rightarrow> tool" where
  "reset_tool (CourseSearchTool st srcs) = CourseSearchTool st []"
| "reset_tool (CourseOutlineTool st) = CourseOutlineTool st"
| "reset_tool (OtherTool d f srcs) =
     (case srcs of None \<Rightarrow> OtherTool d f None | Some s \<Rightarrow> OtherTool d f (Some []))"

definition reset_sources :: "tool_manager \<Rightarrow> tool_manager" where
  "reset_sources tm = tm\<lparr> tools := map (\<lambda>(name, t). (name, reset_tool t)) (tools tm) \<rparr>"

section \<open>AIGenerator\<close>

text \<open>
  The completion oracle's data. A tool call carries its identifier, its type, the
  function's name and the JSON text of its arguments; a choice carries the finish
  reason and the message's content and tool calls, either of which may be \<open>None\<close>.
\<close>

record tool_call =
  call_id :: string
  call_type :: string
  function_name :: string
  function_arguments :: string

record choice =
  finish_reason :: string
  message_content :: "string option"
  message_tool_calls :: "tool_call list option"

record response =
  choices :: "choice list"

text \<open>The dictionaries of the message list, by role.\<close>

datatype message =
    SystemMessage string
  | UserMessage string
  | AssistantMessage "string option" "tool_call list option"
  | ToolMessage string string

text \<open>
  The keyword arguments of \<open>chat.completions.create\<close>; \<open>None\<close> for
  \<open>"tools"\<close> and \<open>"tool_choice"\<close> is the key being absent.
\<close>

record api_params =
  param_model :: string
  param_temperature :: int
  param_max_tokens :: int
  param_messages :: "message list"
  param_tools :: "tool_definition list option"
  param_tool_choice :: "string option"

type_synonym completion_oracle = "api_params \<Rightarrow> py_error + response"

text \<open>The class constant \<open>SYSTEM_PROMPT\<close>, line by line.\<close>

definition SYSTEM_PROMPT :: string where
  \<open>SYSTEM_PROMPT =
     '' You are an AI assistant specialized in course materials and educational content with access to comprehensive tools for course information.'' @ NL
     @ NL
     @ ''Available Tools:'' @ NL
     @ ''1. **Course Content Search Tool**: For questions about specific course content, lessons, or detailed educational materials'' @ NL
     @ ''2. **Course Outline Tool**: For questions about course structure, lesson lists, course overviews, or complete course outlines'' @ NL
     @ NL
     @ ''Tool Usage Guidelines:'' @ NL
     @ ''- **Course outline/structure questions**: Use the course outline tool to get the complete course structure with all lessons'' @ NL
     @ ''- **Specific content questions**: Use the content search tool for detailed information within courses'' @ NL
     @ ''- **One tool call per query maximum**'' @ NL
     @ ''- Synthesize tool results into accurate, fact-based responses'' @ NL
     @ ''- If search yields no results, state this clearly without offering alternatives'' @ NL
     @ NL
     @ ''Response Protocol:'' @ NL
     @ ''- **General knowledge questions**: Answer using existing knowledge without using tools'' @ NL
     @ ''- **Course outline/structure questions**: Use the outline tool, then provide the complete course title, course link, and full lesson list with numbers and titles'' @ NL
     @ ''- **Course content questions**: Use the content search tool, then answer based on results'' @ NL
     @ ''- **No meta-commentary**:'' @ NL
     @ '' - Provide direct answers only '' @ [CHR 0xE2, CHR 0x80, CHR 0x94] @ '' no reasoning process, tool explanations, or question-type analysis'' @ NL
     @ '' - Do not mention "based on the search results" or "using the tool"'' @ NL
     @ NL
     @ ''For outline queries, ensure you return:'' @ NL
     @ ''- Course title (with clickable link if available)'' @ NL
     @ ''- Course instructor'' @ NL
     @ ''- Complete numbered list of all lessons with titles (and clickable links if available)'' @ NL
     @ NL
     @ ''All responses must be:'' @ NL
     @ ''1. **Brief, Concise and focused** - Get to the point quickly'' @ NL
     @ ''2. **Educational** - Maintain instructional value'' @ NL
     @ ''3. **Clear** - Use accessible language'' @ NL
     @ ''4. **Example-supported** - Include relevant examples when they aid understanding'' @ NL
     @ ''Provide only the direct answer to what was asked.'' @ NL\<close>

text \<open>
  The generator keeps the model's name; its client is the completion oracle, which
  the functions below take as a parameter.
\<close>

record ai_generator =
  model :: string

text \<open>\<open>{**self.base_params, "messages": messages}\<close>.\<close>

definition base_params_with :: "ai_generator \<Rightarrow> message list \<Rightarrow> api_params" where
  "base_params_with gen msgs =
     \<lparr> param_model = model gen, param_temperature = 0, param_max_tokens = 800,
       param_messages = msgs, param_tools = None, param_tool_choice = None \<rparr>"

text \<open>
  The loop of \<open>_handle_tool_execution\<close> over the requested tool calls: the message
  list and the tool manager as they stand after it, or the exception that left it.
  The arguments are parsed before \<open>execute_tool\<close> is called; unpacking anything but
  a mapping with \<open>**\<close> raises \<open>TypeError\<close>.
\<close>

fun run_tool_calls ::
  "runtime \<Rightarrow> tool_manager \<Rightarrow> tool_call list \<Rightarrow> message list
     \<Rightarrow> (py_error + message list) \<times> tool_manager" where
  "run_tool_calls rt tm [] msgs = (Inr msgs, tm)"
| "run_tool_calls rt tm (tc # rest) msgs =
     (if call_type tc = ''function''
      then (case json_loads rt (function_arguments tc) of
              Inl e \<Rightarrow> (Inl e, tm)
            | Inr (JObject kwargs) \<Rightarrow>
                (case execute_tool rt tm (function_name tc) kwargs of
                   (Inl e, tm') \<Rightarrow> (Inl e, tm')
                 | (Inr tool_result, tm') \<Rightarrow>
                     run_tool_calls rt tm' rest
                       (msgs @ [ToolMessage tool_result (call_id tc)]))
            | Inr _ \<Rightarrow> (Inl TypeError, tm))
      else run_tool_calls rt tm rest msgs)"

text \<open>
  \<open>_handle_tool_execution\<close>: the answer, the oracle calls it makes, and the tool
  manager afterwards.
\<close>

definition handle_tool_execution ::
  "ai_generator \<Rightarrow> runtime \<Rightarrow> completion_oracle \<Rightarrow> response \<Rightarrow> api_params \<Rightarrow> tool_manager
     \<Rightarrow> (py_error + string option) \<times> api_params list \<times> tool_manager" where
  "handle_tool_execution gen rt orc initial_response base_params tm =
     (case choices initial_response of
        [] \<Rightarrow> (Inl IndexError, [], tm)
      | c # _ \<Rightarrow>
          (let msgs = param_messages base_params
                        @ [AssistantMessage (message_content c) (message_tool_calls c)]
           in case message_tool_calls c of
                None \<Rightarrow> (Inl TypeError, [], tm)
              | Some tcs \<Rightarrow>
                  (case run_tool_calls rt tm tcs msgs of
                     (Inl e, tm') \<Rightarrow> (Inl e, [], tm')
                   | (Inr msgs', tm') \<Rightarrow>
                       (let final_params = base_params_with gen msgs'
                        in case orc final_params of
                             Inl e \<Rightarrow> (Inl e, [final_params], tm')
                           | Inr final_response \<Rightarrow>
                               (case choices final_response of
                                  [] \<Rightarrow> (Inl IndexError, [final_params], tm')
                                | fc # _ \<Rightarrow>
                                    (Inr (message_content fc), [final_params], tm'))))))"

text \<open>The message list and the parameters of the first oracle call.\<close>

definition initial_messages :: "ai_generator \<Rightarrow> string \<Rightarrow> string option \<Rightarrow> message list" where
  "initial_messages gen query conversation_history =
     [SystemMessage SYSTEM_PROMPT]
     @ (if truthy_opt conversation_history
        then [SystemMessage (''Previous conversation:'' @ NL @ the conversation_history)]
        else [])
     @ [UserMessage query]"

definition initial_params ::
  "ai_generator \<Rightarrow> string \<Rightarrow> string option \<Rightarrow> tool_definition list option \<Rightarrow> api_params" where
  "initial_params gen query conversation_history tools_arg =
     (let api = base_params_with gen (initial_messages gen query conversation_history)
      in if tools_arg \<noteq> None \<and> tools_arg \<noteq> Some []
         then api\<lparr> param_tools := tools_arg, param_tool_choice := Some ''auto'' \<rparr>
         else api)"

text \<open>
  \<open>generate_response(query, conversation_history, tools, tool_manager)\<close>: the
  answer, the oracle calls in the order they are made, and the tool manager afterwards.
\<close>

definition generate_response ::
  "ai_generator \<Rightarrow> runtime \<Rightarrow> completion_oracle \<Rightarrow> string \<Rightarrow> string option
     \<Rightarrow> tool_definition list option \<Rightarrow> tool_manager option
     \<Rightarrow> (py_error + string option) \<times> api_params list \<times> tool_manager option" where
  "generate_response gen rt orc query conversation_history tools_arg tool_manager =
     (let api = initial_params gen query conversation_history tools_arg
      in case orc api of
           Inl e \<Rightarrow> (Inl e, [api], tool_manager)
         | Inr resp \<Rightarrow>
             (case choices resp of
                [] \<Rightarrow> (Inl IndexError, [api], tool_manager)
              | c # _ \<Rightarrow>
                  if finish_reason c = ''tool_calls'' \<and> tool_manager \<noteq> None
                  then (case handle_tool_execution gen rt orc resp api (the tool_manager) of
                          (r, calls, tm') \<Rightarrow> (r, api # calls, Some tm'))
                  else (Inr (message_content c), [api], tool_manager)))"

section \<open>The tool round, call by call\<close>

text \<open>
  What the specification says of the tool round, stated on the registry and the
  JSON parser alone, for comparison with the loop above. \<open>tool_calls_return\<close>:
  taken in order, each call's arguments parse to a mapping, and
  \<open>execute_tool\<close> on the registry as the previous call left it returns the listed
  result; the registry ends as \<open>tm'\<close>.
\<close>

fun tool_calls_return ::
  "runtime \<Rightarrow> tool_manager \<Rightarrow> tool_call list \<Rightarrow> string list \<Rightarrow> tool_manager \<Rightarrow> bool" where
  "tool_calls_return rt tm [] results tm' = (results = [] \<and> tm' = tm)"
| "tool_calls_return rt tm (tc # rest) [] tm' = False"
| "tool_calls_return rt tm (tc # rest) (tool_result # later) tm' =
     (case json_loads rt (function_arguments tc) of
        Inr (JObject kwargs) \<Rightarrow>
          (case execute_tool rt tm (function_name tc) kwargs of
             (Inr res, tm1) \<Rightarrow> res = tool_result \<and> tool_calls_return rt tm1 rest later tm'
           | (Inl e, tm1) \<Rightarrow> False)
      | _ \<Rightarrow> False)"

text \<open>
  \<open>tool_call_raises\<close>: the call raises \<open>e\<close> and leaves the registry as \<open>tm'\<close>,
  because its arguments do not parse, or do not parse to a mapping, or because
  \<open>execute_tool\<close> raises.
\<close>

definition tool_call_raises ::
  "runtime \<Rightarrow> tool_manager \<Rightarrow> tool_call \<Rightarrow> py_error \<Rightarrow> tool_manager \<Rightarrow> bool" where
  "tool_call_raises rt tm tc e tm' =
     (case json_loads rt (function_arguments tc) of
        Inl e' \<Rightarrow> e = e' \<and> tm' = tm
      | Inr (JObject kwargs) \<Rightarrow>
          execute_tool rt tm (function_name tc) kwargs = (Inl e, tm')
      | Inr _ \<Rightarrow> e = TypeError \<and> tm' = tm)"

section \<open>Concrete collaborators for the worked examples\<close>

text \<open>
  A store that holds nothing: every search is empty and reports no error, no lesson
  link and no course name resolves, and the catalog has no entry.
\<close>

definition empty_store :: vector_store where
  "empty_store =
     \<lparr> search = (\<lambda>query course_name lesson_num.
                   Inr \<lparr> documents = [], metadata = [], error = None \<rparr>),
       get_lesson_link = (\<lambda>title lesson_num. Inr None),
       resolve_course_name = (\<lambda>course_name. Inr None),
       course_catalog_get = (\<lambda>ids. Inr None) \<rparr>"

text \<open>A store whose search reports an error.\<close>

definition failing_store :: vector_store where
  "failing_store =
     \<lparr> search = (\<lambda>query course_name lesson_num.
                   Inr \<lparr> documents = [], metadata = [],
                         error = Some ''Search error: collection unavailable'' \<rparr>),
       get_lesson_link = (\<lambda>title lesson_num. Inr None),
       resolve_course_name = (\<lambda>course_name. Inr None),
       course_catalog_get = (\<lambda>ids. Inr None) \<rparr>"

text \<open>The JSON text of a tool call's arguments that asks for lesson 2.\<close>

definition query_arguments :: string where
  \<open>query_arguments = ''{"query": "lesson 2"}''\<close>

text \<open>
  A runtime whose JSON parser knows the empty object and the arguments above, and
  rejects every other text with \<open>ValueError\<close> (the base class of
  \<open>json.JSONDecodeError\<close>).
\<close>

definition example_runtime :: runtime where
  "example_runtime =
     \<lparr> json_loads = (\<lambda>s. if s = ''{}'' then Inr (JObject [])
                          else if s = query_arguments
                          then Inr (JObject [(''query'', PStr ''lesson 2'')])
                          else Inl ValueError),
       exception_str = (\<lambda>e. ''error'') \<rparr>"

text \<open>The registry after registering a search tool and an outline tool.\<close>

definition example_manager :: tool_manager where
  "example_manager =
     \<lparr> tools = [(''search_course_content'', CourseSearchTool empty_store []),
                (''get_course_outline'', CourseOutlineTool empty_store)] \<rparr>"

text \<open>A generator, and an oracle that asks for a tool and says nothing else.\<close>

definition example_generator :: ai_generator where
  "example_generator = \<lparr> model = ''gpt-4o-mini'' \<rparr>"

definition search_call :: tool_call where
  "search_call =
     \<lparr> call_id = ''call_1'', call_type = ''function'',
       function_name = ''search_course_content'', function_arguments = ''{}'' \<rparr>"

definition tool_request :: response where
  "tool_request =
     \<lparr> choices = [\<lparr> finish_reason = ''tool_calls'', message_content = None,
                     message_tool_calls = Some [search_call] \<rparr>] \<rparr>"

definition requesting_oracle :: completion_oracle where
  "requesting_oracle = (\<lambda>params. Inr tool_request)"

definition scenario_results :: search_results where
  "scenario_results =
     \<lparr> documents = [''Lesson 2 covers embeddings.'', ''Lesson 2 covers retrieval.''],
       metadata = [\<lparr> course_title = Some ''X'', lesson_number = Some 2 \<rparr>,
                   \<lparr> course_title = Some ''X'', lesson_number = Some 2 \<rparr>],
       error = None \<rparr>"

definition scenario_store :: vector_store where
  "scenario_store =
     \<lparr> search = (\<lambda>query course_name lesson_num. Inr scenario_results),
       get_lesson_link = (\<lambda>title lesson_num. Inr None),
       resolve_course_name = (\<lambda>course_name. Inr None),
       course_catalog_get = (\<lambda>ids. Inr None) \<rparr>"

definition linked_results :: search_results where
  "linked_results =
     \<lparr> documents = [''Lesson 2 covers embeddings.'', ''Welcome to the course.''],
       metadata = [\<lparr> course_title = Some ''X'', lesson_number = Some 2 \<rparr>,
                   \<lparr> course_title = Some ''X'', lesson_number = None \<rparr>],
       error = None \<rparr>"

definition linked_store :: vector_store where
  "linked_store =
     \<lparr> search = (\<lambda>query course_name lesson_num. Inr linked_results),
       get_lesson_link = (\<lambda>title lesson_num. Inr (Some ''https://example.com/x/2'')),
       resolve_course_name = (\<lambda>course_name. Inr None),
       course_catalog_get = (\<lambda>ids. Inr None) \<rparr>"

definition scenario_manager :: tool_manager where
  "scenario_manager =
     \<lparr> tools = [(''search_course_content'', CourseSearchTool scenario_store [])] \<rparr>"

definition linked_manager :: tool_manager where
  "linked_manager =
     \<lparr> tools = [(''search_course_content'', CourseSearchTool linked_store [''stale'']),
                (''get_course_outline'', CourseOutlineTool linked_store)] \<rparr>"

definition lesson_call :: tool_call where
  "lesson_call =
     \<lparr> call_id = ''call_7'', call_type = ''function'',
       function_name = ''search_course_content'', function_arguments = query_arguments \<rparr>"

definition broken_call :: tool_call where
  "broken_call =
     \<lparr> call_id = ''call_8'', call_type = ''function'',
       function_name = ''search_course_content'', function_arguments = ''{'' \<rparr>"

definition custom_call :: tool_call where
  "custom_call =
     \<lparr> call_id = ''call_9'', call_type = ''custom'',
       function_name = ''search_course_content'', function_arguments = query_arguments \<rparr>"

definition final_answer :: response where
  "final_answer =
     \<lparr> choices = [\<lparr> finish_reason = ''stop'',
                     message_content = Some ''Lesson 2 covers embeddings and retrieval.'',
                     message_tool_calls = None \<rparr>] \<rparr>"

text \<open>
  An oracle that requests the given tool calls while tools are offered and answers
  in text once they are not.
\<close>

definition two_round_oracle :: "tool_call list \<Rightarrow> completion_oracle" where
  "two_round_oracle tcs =
     (\<lambda>params. if param_tools params \<noteq> None
               then Inr \<lparr> choices = [\<lparr> finish_reason = ''tool_calls'', message_content = None,
                                      message_tool_calls = Some tcs \<rparr>] \<rparr>
               else Inr final_answer)"

definition offered_tools :: "tool_definition list option" where
  "offered_tools = Some [CourseSearchTool_definition, CourseOutlineTool_definition]"

section \<open>The registry\<close>

lemma first_sources_reset: "first_sources (map reset_tool ts) = []"
proof (induction ts)
  case Nil
  show ?case by simp
next
  case (Cons t ts)
  then show ?case by (cases t) (auto split: option.splits)
qed

lemma values_reset:
  "map snd (map (\<lambda>(name, t). (name, reset_tool t)) xs) = map reset_tool (map snd xs)"
  by (induction xs) auto

lemma reset_tool_idem: "reset_tool (reset_tool t) = reset_tool t"
  by (cases t) (auto split: option.splits)

text \<open>
  C6. Whatever the registered tools hold, \<open>get_last_sources\<close> right after
  \<open>reset_sources\<close> returns the empty list, and resetting twice leaves the same
  registry as resetting once.
\<close>

theorem reset_sources_clears:
  "get_last_sources (reset_sources tm) = []
   \<and> reset_sources (reset_sources tm) = reset_sources tm"
proof
  show "get_last_sources (reset_sources tm) = []"
    by (simp add: get_last_sources_def reset_sources_def values_reset first_sources_reset
          del: map_map)
next
  have "map (\<lambda>(name, t). (name, reset_tool t)) (map (\<lambda>(name, t). (name, reset_tool t)) xs)
        = map (\<lambda>(name, t). (name, reset_tool t)) xs" for xs :: "(string \<times> tool) list"
    by (induction xs) (auto simp: reset_tool_idem)
  then show "reset_sources (reset_sources tm) = reset_sources tm"
    by (simp add: reset_sources_def)
qed

theorem reset_sources_clears_witness:
  "get_last_sources
     (reset_sources \<lparr> tools = [(''search_course_content'',
                               CourseSearchTool empty_store [''X - Lesson 2''])] \<rparr>) = []"
  using reset_sources_clears
    [of "\<lparr> tools = [(''search_course_content'',
                     CourseSearchTool empty_store [''X - Lesson 2''])] \<rparr>"]
  by simp

text \<open>
  C5. When two tools' definitions yield the same (non-empty) name, registering the
  first and then the second succeeds both times and leaves the registry mapping
  that name to the second tool; every other name maps to what it mapped to before.
  The registry is the old one with the entry of that name replaced in place, or
  added at the end.
\<close>

theorem register_same_name_last_wins:
  assumes "tool_name_of (get_tool_definition t1) = Some n"
    and "tool_name_of (get_tool_definition t2) = Some n"
    and "n \<noteq> []"
  shows "\<exists>tm1 tm2. register_tool tm t1 = Inr tm1 \<and> register_tool tm1 t2 = Inr tm2
           \<and> map_of (tools tm2) n = Some t2
           \<and> (\<forall>k. k \<noteq> n \<longrightarrow> map_of (tools tm2) k = map_of (tools tm) k)
           \<and> tools tm2 = AList.update n t2 (tools tm)"
  using assms by (simp add: register_tool_def update_conv')

theorem register_same_name_last_wins_witness:
  "\<exists>tm1 tm2.
     register_tool example_manager (CourseSearchTool empty_store [''stale'']) = Inr tm1
     \<and> register_tool tm1 (OtherTool (PlainFormat (Some ''search_course_content''))
                            (\<lambda>kwargs. Inr ''ok'') None) = Inr tm2
     \<and> map_of (tools tm2) ''search_course_content''
         = Some (OtherTool (PlainFormat (Some ''search_course_content''))
                   (\<lambda>kwargs. Inr ''ok'') None)
     \<and> map_of (tools tm2) ''get_course_outline'' = Some (CourseOutlineTool empty_store)"
proof -
  have n1: "tool_name_of (get_tool_definition (CourseSearchTool empty_store [''stale'']))
            = Some ''search_course_content''"
    by (simp add: tool_name_of_def CourseSearchTool_definition_def)
  have n2: "tool_name_of (get_tool_definition
              (OtherTool (PlainFormat (Some ''search_course_content''))
                 (\<lambda>kwargs. Inr ''ok'') None)) = Some ''search_course_content''"
    by (simp add: tool_name_of_def)
  have ne: "''search_course_content'' \<noteq> []"
    by simp
  from register_same_name_last_wins [OF n1 n2 ne, of example_manager]
  obtain tm1 tm2 where
    r1: "register_tool example_manager (CourseSearchTool empty_store [''stale'']) = Inr tm1"
    and r2: "register_tool tm1 (OtherTool (PlainFormat (Some ''search_course_content''))
                                 (\<lambda>kwargs. Inr ''ok'') None) = Inr tm2"
    and m: "map_of (tools tm2) ''search_course_content''
              = Some (OtherTool (PlainFormat (Some ''search_course_content''))
                        (\<lambda>kwargs. Inr ''ok'') None)"
    and others: "\<forall>k. k \<noteq> ''search_course_content''
                   \<longrightarrow> map_of (tools tm2) k = map_of (tools example_manager) k"
    by blast
  from others have "map_of (tools tm2) ''get_course_outline''
                    = map_of (tools example_manager) ''get_course_outline''"
    by simp
  then have "map_of (tools tm2) ''get_course_outline'' = Some (CourseOutlineTool empty_store)"
    by (simp add: example_manager_def)
  with r1 r2 m show ?thesis by blast
qed

lemma binds_no_collision:
  assumes "binds kwargs required optional"
    and "''self'' \<notin> set (required @ optional)"
    and "''tool_name'' \<notin> set (required @ optional)"
  shows "\<not> (''self'' \<in> set (map fst kwargs) \<or> ''tool_name'' \<in> set (map fst kwargs))"
  using assms unfolding binds_def list_all_iff by blast

lemma execute_collision_keeps_tool:
  assumes "''self'' \<in> set (map fst kwargs) \<or> ''tool_name'' \<in> set (map fst kwargs)"
  shows "snd (execute rt t kwargs) = t"
proof (cases t)
  case (CourseSearchTool st srcs)
  have "\<not> binds kwargs [''query''] [''course_name'', ''lesson_number'']"
    using assms binds_no_collision [of kwargs "[''query'']" "[''course_name'', ''lesson_number'']"]
    by auto
  with CourseSearchTool show ?thesis by simp
next
  case (CourseOutlineTool st)
  have "\<not> binds kwargs [''course_name''] []"
    using assms binds_no_collision [of kwargs "[''course_name'']" "[]"]
    by auto
  with CourseOutlineTool show ?thesis by simp
next
  case (OtherTool d f srcs)
  then show ?thesis by simp
qed

text \<open>
  C4, as the code has it. Take a parameter mapping that holds neither the key
  \<open>tool_name\<close> nor the key \<open>self\<close>. For a name that is not registered,
  \<open>execute_tool\<close> returns (it does not raise) exactly \<open>Tool '<name>' not found\<close>
  and leaves the registry as it was; for a registered name its result is what the
  registered tool's \<open>execute\<close> gives on the same parameters, an exception included.
  A mapping that holds one of the two keys collides with the method's own
  parameters: the call raises \<open>TypeError\<close>, whether or not the name is registered.
\<close>

theorem execute_tool_dispatch:
  "(''self'' \<notin> set (map fst kwargs) \<and> ''tool_name'' \<notin> set (map fst kwargs) \<longrightarrow>
      (map_of (tools tm) name = None \<longrightarrow>
         execute_tool rt tm name kwargs
           = (Inr (''Tool '' @ QT @ name @ QT @ '' not found''), tm))
      \<and> (\<forall>t. map_of (tools tm) name = Some t \<longrightarrow>
         fst (execute_tool rt tm name kwargs) = fst (execute rt t kwargs)))
   \<and> (''self'' \<in> set (map fst kwargs) \<or> ''tool_name'' \<in> set (map fst kwargs) \<longrightarrow>
      execute_tool rt tm name kwargs = (Inl TypeError, tm))"
  by (auto simp: execute_tool_def split: prod.splits)

theorem execute_tool_dispatch_witness:
  "execute_tool example_runtime example_manager ''summarise'' [(''query'', PStr ''q'')]
     = (Inr (''Tool '' @ QT @ ''summarise'' @ QT @ '' not found''), example_manager)
   \<and> fst (execute_tool example_runtime example_manager ''get_course_outline''
            [(''course_name'', PStr ''Intro'')])
     = fst (execute example_runtime (CourseOutlineTool empty_store)
              [(''course_name'', PStr ''Intro'')])
   \<and> execute_tool example_runtime example_manager ''get_course_outline''
        [(''course_name'', PStr ''Intro''), (''self'', PNone)]
     = (Inl TypeError, example_manager)"
proof -
  have absent: "map_of (tools example_manager) ''summarise'' = None"
    by (simp add: example_manager_def)
  have present: "map_of (tools example_manager) ''get_course_outline''
                 = Some (CourseOutlineTool empty_store)"
    by (simp add: example_manager_def)
  have free1: "''self'' \<notin> set (map fst [(''query'', PStr ''q'')])
               \<and> ''tool_name'' \<notin> set (map fst [(''query'', PStr ''q'')])"
    by simp
  have free2: "''self'' \<notin> set (map fst [(''course_name'', PStr ''Intro'')])
               \<and> ''tool_name'' \<notin> set (map fst [(''course_name'', PStr ''Intro'')])"
    by simp
  have taken: "''self'' \<in> set (map fst [(''course_name'', PStr ''Intro''), (''self'', PNone)])"
    by simp
  from execute_tool_dispatch
    [of "[(''query'', PStr ''q'')]" example_manager "''summarise''" example_runtime]
    absent free1
  have a: "execute_tool example_runtime example_manager ''summarise'' [(''query'', PStr ''q'')]
             = (Inr (''Tool '' @ QT @ ''summarise'' @ QT @ '' not found''), example_manager)"
    by blast
  from execute_tool_dispatch
    [of "[(''course_name'', PStr ''Intro'')]" example_manager "''get_course_outline''"
       example_runtime] present free2
  have b: "fst (execute_tool example_runtime example_manager ''get_course_outline''
                  [(''course_name'', PStr ''Intro'')])
           = fst (execute example_runtime (CourseOutlineTool empty_store)
                    [(''course_name'', PStr ''Intro'')])"
    by blast
  from execute_tool_dispatch
    [of "[(''course_name'', PStr ''Intro''), (''self'', PNone)]" example_manager
       "''get_course_outline''" example_runtime] taken
  have c: "execute_tool example_runtime example_manager ''get_course_outline''
             [(''course_name'', PStr ''Intro''), (''self'', PNone)]
           = (Inl TypeError, example_manager)"
    by blast
  from a b c show ?thesis by blast
qed

text \<open>
  A mapping with the key \<open>tool_name\<close>, for a name that is not registered: the call
  raises \<open>TypeError\<close> and does not return the not-found string.
\<close>

theorem execute_tool_keyword_collision:
  "execute_tool example_runtime example_manager ''summarise''
     [(''tool_name'', PStr ''x''), (''query'', PStr ''q'')]
   = (Inl TypeError, example_manager)
   \<and> execute_tool example_runtime example_manager ''summarise''
        [(''tool_name'', PStr ''x''), (''query'', PStr ''q'')]
     \<noteq> (Inr (''Tool '' @ QT @ ''summarise'' @ QT @ '' not found''), example_manager)"
  by (simp add: execute_tool_def)

section \<open>The outline tool\<close>

text \<open>
  C7. When the store's name resolution returns no match (\<open>None\<close>, or the empty
  string, which the code treats alike), \<open>CourseOutlineTool.execute\<close> returns
  exactly \<open>No course found matching '<name>'\<close> with the caller's input
  interpolated, and the resolution is the only call it makes to the store: the
  catalog is not consulted.
\<close>

theorem outline_unresolved:
  assumes "resolve_course_name st course_name = Inr r" and "\<not> truthy_opt r"
  shows "CourseOutlineTool_execute rt st course_name
           = Inr (''No course found matching '' @ QT @ py_str course_name @ QT)
         \<and> snd (CourseOutlineTool_execute_traced rt st course_name)
           = [ResolveCourseName course_name]"
  using assms
  by (simp add: CourseOutlineTool_execute_def CourseOutlineTool_execute_traced_def)

theorem outline_unresolved_witness:
  "CourseOutlineTool_execute example_runtime empty_store (PStr ''Intro'')
     = Inr (''No course found matching '' @ QT @ ''Intro'' @ QT)
   \<and> snd (CourseOutlineTool_execute_traced example_runtime empty_store (PStr ''Intro''))
     = [ResolveCourseName (PStr ''Intro'')]"
proof -
  have r: "resolve_course_name empty_store (PStr ''Intro'') = Inr None"
    by (simp add: empty_store_def)
  have f: "\<not> truthy_opt None"
    by simp
  from outline_unresolved [OF r f, of example_runtime] show ?thesis
    by simp
qed

lemma join_Cons: "join sep (x # ys) = x @ (if ys = [] then [] else sep @ join sep ys)"
  by (cases ys) simp_all

lemma join_append:
  "zs \<noteq> [] \<Longrightarrow> join sep (xs @ zs) = concat (map (\<lambda>x. x @ sep) xs) @ join sep zs"
proof (induction xs)
  case Nil
  show ?case by simp
next
  case (Cons x xs)
  then have "xs @ zs \<noteq> []" by simp
  then show ?case using Cons by (simp add: join_Cons)
qed

text \<open>
  C8, as the code has it. For a course whose parsed lessons list is empty, and for
  every title, instructor and course link (present or absent), the outline
  formatting returns a text (it does not raise) that holds, on a line of its own,
  the notice: the information sign, a space and
  \<open>No lessons available for this course.\<close>, with a capital N. An empty line and
  the closing \<open>---\<close> follow it and end the text.
\<close>

theorem outline_no_lessons_notice:
  "\<exists>pre. format_course_outline title instructor course_link (JArray [])
          = Inr (pre @ NL
                 @ [CHR 0xE2, CHR 0x84, CHR 0xB9, CHR 0xEF, CHR 0xB8, CHR 0x8F]
                 @ '' No lessons available for this course.''
                 @ NL @ NL @ ''---'')"
proof -
  let ?head = "outline_head title instructor course_link"
  let ?rest = "[''## '' @ BOOKS @ '' **Course Lessons**'', [], NO_LESSONS_NOTICE, [], ''---'']"
  have out: "format_course_outline title instructor course_link (JArray [])
             = Inr (join NL (?head @ ?rest))"
    by (simp add: format_course_outline_def)
  have "join NL (?head @ ?rest) = concat (map (\<lambda>x. x @ NL) ?head) @ join NL ?rest"
    by (rule join_append) simp
  also have "join NL ?rest
             = (''## '' @ BOOKS @ '' **Course Lessons**'' @ NL) @ NL
               @ [CHR 0xE2, CHR 0x84, CHR 0xB9, CHR 0xEF, CHR 0xB8, CHR 0x8F]
               @ '' No lessons available for this course.'' @ NL @ NL @ ''---''"
    by (simp add: NO_LESSONS_NOTICE_def INFO_SIGN_def)
  finally have eq: "join NL (?head @ ?rest)
      = (concat (map (\<lambda>x. x @ NL) ?head) @ ''## '' @ BOOKS @ '' **Course Lessons**'' @ NL)
        @ NL @ [CHR 0xE2, CHR 0x84, CHR 0xB9, CHR 0xEF, CHR 0xB8, CHR 0x8F]
        @ '' No lessons available for this course.'' @ NL @ NL @ ''---''"
    by simp
  show ?thesis
    unfolding out eq by (intro exI) (rule refl)
qed

text \<open>
  The specification names the literal \<open>no lessons available\<close>. The outline of a course
  titled X, taught by Ann, without a course link and without lessons is returned,
  and that literal is not part of it: the notice is capitalised, and nothing else
  in this outline spells it.
\<close>

theorem outline_notice_not_lower_case:
  "\<not> isl (format_course_outline (PStr ''X'') (PStr ''Ann'') PNone (JArray []))
   \<and> \<not> sublist ''no lessons available''
         (projr (format_course_outline (PStr ''X'') (PStr ''Ann'') PNone (JArray [])))"
  by (simp add: format_course_outline_def outline_head_def NO_LESSONS_NOTICE_def
        INFO_SIGN_def GRADUATION_CAP_def TEACHER_def BOOKS_def sublist_Cons_right)

section \<open>The search tool on an empty result set\<close>

text \<open>
  An empty result set without an error gives \<open>No relevant content found\<close>, then
  \<open>in course '<name>'\<close> when the course name is truthy, then \<open>in lesson <n>\<close>
  when the lesson number is truthy, then a full stop; \<open>last_sources\<close> is kept.
\<close>

theorem empty_results_message:
  assumes "search st query course_name lesson_num = Inr results"
    and "\<not> truthy_opt (error results)" and "is_empty results"
  shows "CourseSearchTool_execute st prev query course_name lesson_num
         = (Inr (''No relevant content found''
                 @ (if truthy course_name
                    then '' in course '' @ QT @ py_str course_name @ QT else [])
                 @ (if truthy lesson_num then '' in lesson '' @ py_str lesson_num else [])
                 @ ''.''),
            prev)"
  using assms by (simp add: CourseSearchTool_execute_def filter_info_def)

theorem empty_results_message_witness:
  "CourseSearchTool_execute empty_store [''stale''] (PStr ''tools'') (PStr ''X'') PNone
     = (Inr (''No relevant content found in course '' @ QT @ ''X'' @ QT @ ''.''), [''stale''])
   \<and> CourseSearchTool_execute empty_store [] (PStr ''tools'') (PStr ''X'') (PInt 3)
     = (Inr (''No relevant content found in course '' @ QT @ ''X'' @ QT @ '' in lesson 3.''), [])"
proof -
  have s: "search empty_store q c l = Inr \<lparr> documents = [], metadata = [], error = None \<rparr>"
    for q c l
    by (simp add: empty_store_def)
  have e: "\<not> truthy_opt (error \<lparr> documents = [], metadata = [], error = None \<rparr>)"
    by simp
  have i: "is_empty \<lparr> documents = [], metadata = [], error = None \<rparr>"
    by (simp add: is_empty_def)
  have three: "str_int 3 = ''3''"
    by (simp add: str_int_def str_nat.simps)
  from empty_results_message [OF s e i, of "[''stale'']" "PStr ''tools''" "PStr ''X''" PNone]
    empty_results_message [OF s e i, of "[]" "PStr ''tools''" "PStr ''X''" "PInt 3"]
  show ?thesis
    by (simp add: three)
qed

text \<open>
  An error reported by the backend is returned as it is, and \<open>last_sources\<close> is
  kept.
\<close>

theorem backend_error_verbatim:
  assumes "search st query course_name lesson_num = Inr results"
    and "error results = Some e" and "e \<noteq> []"
  shows "CourseSearchTool_execute st prev query course_name lesson_num = (Inr e, prev)"
  using assms by (simp add: CourseSearchTool_execute_def)

theorem backend_error_verbatim_witness:
  "CourseSearchTool_execute failing_store [''stale''] (PStr ''tools'') PNone PNone
     = (Inr ''Search error: collection unavailable'', [''stale''])"
proof -
  have s: "search failing_store (PStr ''tools'') PNone PNone
           = Inr \<lparr> documents = [], metadata = [],
                   error = Some ''Search error: collection unavailable'' \<rparr>"
    by (simp add: failing_store_def)
  have e: "error \<lparr> documents = [], metadata = [],
                   error = Some ''Search error: collection unavailable'' \<rparr>
           = Some ''Search error: collection unavailable''"
    by simp
  have n: "''Search error: collection unavailable'' \<noteq> []"
    by simp
  from backend_error_verbatim [OF s e n] show ?thesis .
qed

text \<open>
  C3, at lesson 0. A search of the empty store for lesson 0 is an empty result set
  without an error; the message the tool returns names no lesson filter, because
  \<open>if lesson_number:\<close> is false at 0.
\<close>

theorem lesson_zero_filter_not_named:
  "CourseSearchTool_execute empty_store [] (PStr ''tools'') PNone (PInt 0)
     = (Inr ''No relevant content found.'', [])
   \<and> execute example_runtime (CourseSearchTool empty_store [])
        [(''query'', PStr ''tools''), (''lesson_number'', PInt 0)]
     = (Inr ''No relevant content found.'', CourseSearchTool empty_store [])"
  by (simp add: CourseSearchTool_execute_def empty_store_def is_empty_def filter_info_def
        binds_def dict_get_def)

section \<open>The response loop\<close>

text \<open>
  C10. When the first oracle response finishes with \<open>tool_calls\<close> and no tool
  manager is given, \<open>generate_response\<close> makes that one oracle call only, runs no
  tool, and returns the first response's message content as it is (\<open>None\<close>
  included).
\<close>

theorem no_manager_returns_first_content:
  assumes "orc (initial_params gen query conversation_history tools_arg) = Inr resp"
    and "choices resp = c # cs"
    and "finish_reason c = ''tool_calls''"
  shows "generate_response gen rt orc query conversation_history tools_arg None
           = (Inr (message_content c),
              [initial_params gen query conversation_history tools_arg], None)"
  using assms by (simp add: generate_response_def)

theorem no_manager_returns_first_content_witness:
  "generate_response example_generator example_runtime requesting_oracle
      ''What is in lesson 2?'' None (Some [CourseSearchTool_definition]) None
   = (Inr None,
      [initial_params example_generator ''What is in lesson 2?'' None
         (Some [CourseSearchTool_definition])], None)"
proof -
  have o: "requesting_oracle
             (initial_params example_generator ''What is in lesson 2?'' None
                (Some [CourseSearchTool_definition])) = Inr tool_request"
    by (simp add: requesting_oracle_def)
  have c: "choices tool_request
             = \<lparr> finish_reason = ''tool_calls'', message_content = None,
                 message_tool_calls = Some [search_call] \<rparr> # []"
    by (simp add: tool_request_def)
  have f: "finish_reason \<lparr> finish_reason = ''tool_calls'', message_content = None,
                 message_tool_calls = Some [search_call] \<rparr> = ''tool_calls''"
    by simp
  from no_manager_returns_first_content
    [where orc = requesting_oracle and gen = example_generator
       and query = "''What is in lesson 2?''" and conversation_history = None
       and tools_arg = "Some [CourseSearchTool_definition]" and resp = tool_request
       and c = "\<lparr> finish_reason = ''tool_calls'', message_content = None,
                 message_tool_calls = Some [search_call] \<rparr>"
       and cs = "[]" and rt = example_runtime] o c f
  show ?thesis
    by simp
qed

section \<open>The search tool on a result set with hits\<close>

lemma format_loop_ok:
  "map (lesson_link_of st) (map snd hits) = map Inr links \<Longrightarrow>
   format_loop st hits formatted sources
     = Inr (formatted
              @ map (\<lambda>((doc, m), lk). header_of (title_of m) (lesson_number m) lk @ NL @ doc)
                  (zip hits links),
            sources
              @ map (\<lambda>((doc, m), lk). source_of (title_of m) (lesson_number m) lk)
                  (zip hits links))"
proof (induction hits arbitrary: links formatted sources)
  case Nil
  then show ?case by simp
next
  case (Cons h hits)
  obtain doc m where h: "h = (doc, m)" by (cases h)
  from Cons.prems obtain lk links' where links: "links = lk # links'"
    by (cases links) auto
  with Cons.prems h have lk: "lesson_link_of st m = Inr lk"
    and rest: "map (lesson_link_of st) (map snd hits) = map Inr links'"
    by auto
  show ?case
    using Cons.IH [OF rest] lk by (simp add: h links)
qed

lemma first_sources_update:
  assumes "map_of xs n = Some t"
    and "first_sources (map snd (filter (\<lambda>p. fst p \<noteq> n) xs)) = []"
    and "last_sources t' = Some srcs" and "srcs \<noteq> []"
  shows "first_sources (map snd (AList.update n t' xs)) = srcs"
  using assms
proof (induction xs)
  case Nil
  then show ?case by simp
next
  case (Cons p xs)
  obtain k u where p: "p = (k, u)" by (cases p)
  show ?case
  proof (cases "k = n")
    case True
    with Cons.prems p show ?thesis by simp
  next
    case False
    with Cons.prems p have u: "last_sources u = None \<or> last_sources u = Some []"
      and rest: "first_sources (map snd (filter (\<lambda>p. fst p \<noteq> n) xs)) = []"
      and m: "map_of xs n = Some t"
      by (auto split: option.splits if_splits)
    from Cons.IH [OF m rest Cons.prems(3) Cons.prems(4)] u False p
    show ?thesis by auto
  qed
qed

lemma header_source_relation:
  "(truthy_opt lk \<longrightarrow> source_of t n lk = header_of t n lk)
   \<and> (\<not> truthy_opt lk \<longrightarrow> header_of t n lk = ''['' @ source_of t n lk @ '']'')"
  by (simp add: header_of_def source_of_def)

text \<open>
  C2, as the code has it. Take a registry that holds the search tool under its name
  and in which no other tool holds sources, and a search that returns \<open>n \<ge> 1\<close>
  chunks with as many metadata entries, no error, and whose link lookups return.
  Then \<open>execute_tool\<close> returns the \<open>n\<close> blocks joined by blank lines, block \<open>i\<close>
  being the header of hit \<open>i\<close>, a newline and its chunk; and \<open>get_last_sources\<close>
  afterwards returns \<open>n\<close> entries in the order of the hits. An entry equals its
  block's header when the lesson link resolves (the markdown-link form); otherwise
  the header is the entry in square brackets, the entry being the title followed by
  \<open>" - Lesson k"\<close> when the hit has a lesson number. Whatever the tool held before
  is replaced.
\<close>

theorem search_hits_blocks_and_sources:
  assumes tool: "map_of (tools tm) ''search_course_content'' = Some (CourseSearchTool st prev)"
    and others: "first_sources
                   (map snd (filter (\<lambda>p. fst p \<noteq> ''search_course_content'') (tools tm))) = []"
    and bound: "binds kwargs [''query''] [''course_name'', ''lesson_number'']"
    and found: "search st (dict_get kwargs ''query'' PNone) (dict_get kwargs ''course_name'' PNone)
                  (dict_get kwargs ''lesson_number'' PNone) = Inr results"
    and no_error: "\<not> truthy_opt (error results)"
    and hits: "documents results \<noteq> []"
    and parallel: "length (metadata results) = length (documents results)"
    and links: "map (lesson_link_of st) (metadata results) = map Inr links"
  shows "fst (execute_tool rt tm ''search_course_content'' kwargs)
           = Inr (join (NL @ NL)
                   (map (\<lambda>(doc, m, lk). header_of (title_of m) (lesson_number m) lk @ NL @ doc)
                      (zip (documents results) (zip (metadata results) links))))
         \<and> get_last_sources (snd (execute_tool rt tm ''search_course_content'' kwargs))
           = map (\<lambda>(m, lk). source_of (title_of m) (lesson_number m) lk)
               (zip (metadata results) links)
         \<and> length (get_last_sources (snd (execute_tool rt tm ''search_course_content'' kwargs)))
           = length (documents results)
         \<and> (\<forall>m lk. (truthy_opt lk \<longrightarrow>
                source_of (title_of m) (lesson_number m) lk
                  = header_of (title_of m) (lesson_number m) lk)
              \<and> (\<not> truthy_opt lk \<longrightarrow>
                header_of (title_of m) (lesson_number m) lk
                  = ''['' @ source_of (title_of m) (lesson_number m) lk @ '']''
                \<and> source_of (title_of m) (lesson_number m) lk
                  = title_of m @ lesson_suffix (lesson_number m)))"
proof -
  let ?hits = "zip (documents results) (metadata results)"
  let ?srcs = "map (\<lambda>(m, lk). source_of (title_of m) (lesson_number m) lk)
                 (zip (metadata results) links)"
  let ?blocks = "map (\<lambda>(doc, m, lk). header_of (title_of m) (lesson_number m) lk @ NL @ doc)
                   (zip (documents results) (zip (metadata results) links))"
  from links have len: "length links = length (metadata results)"
    by (metis length_map)
  have snd_hits: "map snd ?hits = metadata results"
    using parallel by simp
  have loop: "format_loop st ?hits [] []
      = Inr (map (\<lambda>((doc, m), lk). header_of (title_of m) (lesson_number m) lk @ NL @ doc)
               (zip ?hits links),
             map (\<lambda>((doc, m), lk). source_of (title_of m) (lesson_number m) lk)
               (zip ?hits links))"
    using format_loop_ok [of st ?hits links "[]" "[]"] links snd_hits by simp
  have blocks: "map (\<lambda>((doc, m), lk). header_of (title_of m) (lesson_number m) lk @ NL @ doc)
                  (zip ?hits links) = ?blocks"
    using len parallel
    by (intro nth_equalityI) simp_all
  have srcs: "map (\<lambda>((doc, m), lk). source_of (title_of m) (lesson_number m) lk)
                (zip ?hits links) = ?srcs"
    using len parallel
    by (intro nth_equalityI) simp_all
  have exec: "CourseSearchTool_execute st prev (dict_get kwargs ''query'' PNone)
                (dict_get kwargs ''course_name'' PNone) (dict_get kwargs ''lesson_number'' PNone)
              = (Inr (join (NL @ NL) ?blocks), ?srcs)"
    using found no_error hits loop blocks srcs
    by (simp add: CourseSearchTool_execute_def is_empty_def format_results_def)
  have run: "execute_tool rt tm ''search_course_content'' kwargs
             = (Inr (join (NL @ NL) ?blocks),
                tm\<lparr> tools := AList.update ''search_course_content''
                                 (CourseSearchTool st ?srcs) (tools tm) \<rparr>)"
    using tool bound exec
      binds_no_collision [of kwargs "[''query'']" "[''course_name'', ''lesson_number'']"]
    by (simp add: execute_tool_def)
  have nonempty: "?srcs \<noteq> []"
    using hits parallel len by (cases "metadata results"; cases links) auto
  have got: "get_last_sources (snd (execute_tool rt tm ''search_course_content'' kwargs)) = ?srcs"
    unfolding run get_last_sources_def
    using first_sources_update [OF tool others, of "CourseSearchTool st ?srcs" ?srcs] nonempty
    by simp
  have count: "length ?srcs = length (documents results)"
    using len parallel by simp
  have rel: "\<forall>m lk. (truthy_opt lk \<longrightarrow>
                source_of (title_of m) (lesson_number m) lk
                  = header_of (title_of m) (lesson_number m) lk)
              \<and> (\<not> truthy_opt lk \<longrightarrow>
                header_of (title_of m) (lesson_number m) lk
                  = ''['' @ source_of (title_of m) (lesson_number m) lk @ '']''
                \<and> source_of (title_of m) (lesson_number m) lk
                  = title_of m @ lesson_suffix (lesson_number m))"
    by (simp add: header_of_def source_of_def)
  from run got count rel show ?thesis
    by (simp only: fst_conv) 
qed


lemma str_int_2: "str_int 2 = ''2''"
  by (simp add: str_int_def str_nat.simps)

theorem search_hits_blocks_and_sources_witness:
  "fst (execute_tool example_runtime linked_manager ''search_course_content''
          [(''query'', PStr ''What is in course X?'')])
     = Inr (''[X - Lesson 2](https://example.com/x/2)'' @ NL @ ''Lesson 2 covers embeddings.''
            @ NL @ NL @ ''[X]'' @ NL @ ''Welcome to the course.'')
   \<and> get_last_sources
        (snd (execute_tool example_runtime linked_manager ''search_course_content''
                [(''query'', PStr ''What is in course X?'')]))
     = [''[X - Lesson 2](https://example.com/x/2)'', ''X'']"
proof -
  let ?kw = "[(''query'', PStr ''What is in course X?'')]"
  have tool: "map_of (tools linked_manager) ''search_course_content''
              = Some (CourseSearchTool linked_store [''stale''])"
    by (simp add: linked_manager_def)
  have others: "first_sources
                  (map snd (filter (\<lambda>p. fst p \<noteq> ''search_course_content'')
                     (tools linked_manager))) = []"
    by (simp add: linked_manager_def)
  have bound: "binds ?kw [''query''] [''course_name'', ''lesson_number'']"
    by (simp add: binds_def)
  have found: "search linked_store (dict_get ?kw ''query'' PNone)
                 (dict_get ?kw ''course_name'' PNone) (dict_get ?kw ''lesson_number'' PNone)
               = Inr linked_results"
    by (simp add: linked_store_def)
  have no_error: "\<not> truthy_opt (error linked_results)"
    by (simp add: linked_results_def)
  have hits: "documents linked_results \<noteq> []"
    by (simp add: linked_results_def)
  have parallel: "length (metadata linked_results) = length (documents linked_results)"
    by (simp add: linked_results_def)
  have links: "map (lesson_link_of linked_store) (metadata linked_results)
               = map Inr [Some ''https://example.com/x/2'', None]"
    by (simp add: linked_results_def linked_store_def lesson_link_of_def)
  from search_hits_blocks_and_sources
    [OF tool others bound found no_error hits parallel links, of example_runtime]
  show ?thesis
    by (simp add: linked_results_def header_of_def source_of_def title_of_def
          lesson_suffix_def str_int_2)
qed

text \<open>
  Scenario A of the specification: two hits of course X, lesson 2, whose lesson link
  does not resolve. The two blocks are headed \<open>[X - Lesson 2]\<close>; the two sources
  are \<open>X - Lesson 2\<close>, without the brackets, so they do not equal the headers.
\<close>

theorem plain_sources_differ_from_headers:
  "fst (execute_tool example_runtime scenario_manager ''search_course_content''
          [(''query'', PStr ''What is in lesson 2 of course X?'')])
     = Inr (''[X - Lesson 2]'' @ NL @ ''Lesson 2 covers embeddings.''
            @ NL @ NL @ ''[X - Lesson 2]'' @ NL @ ''Lesson 2 covers retrieval.'')
   \<and> get_last_sources
        (snd (execute_tool example_runtime scenario_manager ''search_course_content''
                [(''query'', PStr ''What is in lesson 2 of course X?'')]))
     = [''X - Lesson 2'', ''X - Lesson 2'']
   \<and> get_last_sources
        (snd (execute_tool example_runtime scenario_manager ''search_course_content''
                [(''query'', PStr ''What is in lesson 2 of course X?'')]))
     \<noteq> [''[X - Lesson 2]'', ''[X - Lesson 2]'']"
  by (simp add: execute_tool_def scenario_manager_def binds_def dict_get_def
        CourseSearchTool_execute_def scenario_store_def scenario_results_def is_empty_def
        format_results_def lesson_link_of_def header_of_def source_of_def title_of_def
        lesson_suffix_def str_int_2 get_last_sources_def)

section \<open>The tool round of the response loop\<close>

lemma tool_calls_return_Cons:
  "tool_calls_return rt tm (tc # rest) results tm' =
   (\<exists>tool_result later kwargs tm1.
      results = tool_result # later
      \<and> json_loads rt (function_arguments tc) = Inr (JObject kwargs)
      \<and> execute_tool rt tm (function_name tc) kwargs = (Inr tool_result, tm1)
      \<and> tool_calls_return rt tm1 rest later tm')"
proof (cases results)
  case Nil
  then show ?thesis by simp
next
  case (Cons tool_result later)
  show ?thesis
  proof (cases "json_loads rt (function_arguments tc)")
    case (Inl e)
    with Cons show ?thesis by simp
  next
    case (Inr doc)
    show ?thesis
    proof (cases doc)
      case (JObject kwargs)
      obtain r tm1 where ex: "execute_tool rt tm (function_name tc) kwargs = (r, tm1)"
        by (cases "execute_tool rt tm (function_name tc) kwargs")
      show ?thesis
        using Cons Inr JObject ex by (cases r) auto
    next
      case (JArray ls)
      with Cons Inr show ?thesis by simp
    next
      case (JScalar v)
      with Cons Inr show ?thesis by simp
    qed
  qed
qed

lemma tool_calls_return_length:
  "tool_calls_return rt tm fcs results tm' \<Longrightarrow> length results = length fcs"
proof (induction fcs arbitrary: tm results)
  case Nil
  then show ?case by simp
next
  case (Cons fc fcs)
  then show ?case by (auto simp: tool_calls_return_Cons)
qed

lemma run_tool_calls_prefix:
  "tool_calls_return rt tm (filter (\<lambda>tc. call_type tc = ''function'') pre) results tm1 \<Longrightarrow>
   run_tool_calls rt tm (pre @ post) msgs
     = run_tool_calls rt tm1 post
         (msgs @ map (\<lambda>(tool_result, tc). ToolMessage tool_result (call_id tc))
                   (zip results (filter (\<lambda>tc. call_type tc = ''function'') pre)))"
proof (induction pre arbitrary: tm msgs results)
  case Nil
  then show ?case by simp
next
  case (Cons tc pre)
  show ?case
  proof (cases "call_type tc = ''function''")
    case False
    with Cons.prems
    have "tool_calls_return rt tm (filter (\<lambda>tc. call_type tc = ''function'') pre) results tm1"
      by simp
    from Cons.IH [OF this] False show ?thesis by simp
  next
    case True
    with Cons.prems
    have ret: "tool_calls_return rt tm
                 (tc # filter (\<lambda>tc. call_type tc = ''function'') pre) results tm1"
      by simp
    then obtain tool_result later kwargs tm2 where
      results: "results = tool_result # later"
      and parsed: "json_loads rt (function_arguments tc) = Inr (JObject kwargs)"
      and ran: "execute_tool rt tm (function_name tc) kwargs = (Inr tool_result, tm2)"
      and rest: "tool_calls_return rt tm2
                   (filter (\<lambda>tc. call_type tc = ''function'') pre) later tm1"
      unfolding tool_calls_return_Cons by blast
    have "run_tool_calls rt tm ((tc # pre) @ post) msgs
          = run_tool_calls rt tm2 (pre @ post) (msgs @ [ToolMessage tool_result (call_id tc)])"
      using True parsed ran by simp
    also have "\<dots> = run_tool_calls rt tm1 post
         ((msgs @ [ToolMessage tool_result (call_id tc)])
          @ map (\<lambda>(tool_result, tc). ToolMessage tool_result (call_id tc))
              (zip later (filter (\<lambda>tc. call_type tc = ''function'') pre)))"
      by (rule Cons.IH [OF rest])
    finally show ?thesis
      using True results by simp
  qed
qed

lemma run_tool_calls_raise:
  assumes "call_type tc = ''function''" and "tool_call_raises rt tm tc e tm'"
  shows "run_tool_calls rt tm (tc # post) msgs = (Inl e, tm')"
  using assms
  by (auto simp: tool_call_raises_def split: sum.splits json_doc.splits)

text \<open>
  C1, as the code has it. Let the first oracle response finish with \<open>tool_calls\<close>
  and carry a list of tool calls, and let a tool manager be given.
  \<^item> The first oracle call carries the tool definitions and the automatic tool
    choice when the \<open>tools\<close> argument is non-empty, and neither when it is absent
    or empty.
  \<^item> When every requested call of type \<open>function\<close> returns (its arguments parse
    to a mapping and \<open>execute_tool\<close>, run in order on the registry, returns a
    result), exactly two oracle calls are made, the second without tools. The second
    message list is the first, then the assistant's tool-call message, then one
    tool-result message for each requested call of type \<open>function\<close>, in order,
    holding that call's result and tagged with its identifier; calls of another type
    get no message. The answer is the second response's content, and the registry is
    as the last tool call left it.
  \<^item> When a requested call of type \<open>function\<close> raises, after the calls before
    it have returned, the exception is the outcome, and the first oracle call is the
    only one.
\<close>

theorem tool_round_two_calls:
  assumes first: "orc first_params = Inr resp"
    and fp: "first_params = initial_params gen query conversation_history tools_arg"
    and choice: "choices resp = c # cs"
    and finish: "finish_reason c = ''tool_calls''"
    and requested: "message_tool_calls c = Some tcs"
  shows "(tools_arg \<noteq> None \<and> tools_arg \<noteq> Some [] \<longrightarrow>
            param_tools first_params = tools_arg \<and> param_tool_choice first_params = Some ''auto'')
         \<and> (tools_arg = None \<or> tools_arg = Some [] \<longrightarrow>
            param_tools first_params = None \<and> param_tool_choice first_params = None)
         \<and> (\<forall>results tm'.
              tool_calls_return rt tm (filter (\<lambda>tc. call_type tc = ''function'') tcs)
                results tm' \<longrightarrow>
              (let msgs2 = param_messages first_params
                     @ [AssistantMessage (message_content c) (Some tcs)]
                     @ map (\<lambda>(tool_result, tc). ToolMessage tool_result (call_id tc))
                         (zip results (filter (\<lambda>tc. call_type tc = ''function'') tcs));
                   p2 = base_params_with gen msgs2
               in generate_response gen rt orc query conversation_history tools_arg (Some tm)
                    = (case orc p2 of
                         Inl e \<Rightarrow> Inl e
                       | Inr final_response \<Rightarrow>
                           (case choices final_response of
                              [] \<Rightarrow> Inl IndexError
                            | fc # _ \<Rightarrow> Inr (message_content fc)),
                       [first_params, p2], Some tm')
                  \<and> param_tools p2 = None \<and> param_tool_choice p2 = None
                  \<and> param_messages p2 = msgs2
                  \<and> length results
                      = length (filter (\<lambda>tc. call_type tc = ''function'') tcs)))
         \<and> (\<forall>pre tc post results tm1 e tm2.
              tcs = pre @ tc # post \<and> call_type tc = ''function''
              \<and> tool_calls_return rt tm (filter (\<lambda>tc. call_type tc = ''function'') pre)
                    results tm1
              \<and> tool_call_raises rt tm1 tc e tm2 \<longrightarrow>
              generate_response gen rt orc query conversation_history tools_arg (Some tm)
                = (Inl e, [first_params], Some tm2))"
proof (intro conjI allI impI)
  assume "tools_arg \<noteq> None \<and> tools_arg \<noteq> Some []"
  then show "param_tools first_params = tools_arg" and "param_tool_choice first_params = Some ''auto''"
    by (simp_all add: fp initial_params_def)
next
  assume "tools_arg = None \<or> tools_arg = Some []"
  then show "param_tools first_params = None" and "param_tool_choice first_params = None"
    by (auto simp: fp initial_params_def base_params_with_def)
next
  fix results tm'
  let ?fcs = "filter (\<lambda>tc. call_type tc = ''function'') tcs"
  let ?msgs1 = "param_messages first_params @ [AssistantMessage (message_content c) (Some tcs)]"
  let ?msgs2 = "param_messages first_params
                  @ [AssistantMessage (message_content c) (Some tcs)]
                  @ map (\<lambda>(tool_result, tc). ToolMessage tool_result (call_id tc))
                      (zip results ?fcs)"
  let ?p2 = "base_params_with gen ?msgs2"
  assume ret: "tool_calls_return rt tm ?fcs results tm'"
  have "run_tool_calls rt tm (tcs @ []) ?msgs1
        = run_tool_calls rt tm' []
            (?msgs1 @ map (\<lambda>(tool_result, tc). ToolMessage tool_result (call_id tc))
                       (zip results ?fcs))"
    by (rule run_tool_calls_prefix [OF ret])
  then have ran: "run_tool_calls rt tm tcs ?msgs1 = (Inr ?msgs2, tm')"
    by simp
  have handle: "handle_tool_execution gen rt orc resp first_params tm
      = (case orc ?p2 of
           Inl e \<Rightarrow> Inl e
         | Inr final_response \<Rightarrow>
             (case choices final_response of
                [] \<Rightarrow> Inl IndexError
              | fc # _ \<Rightarrow> Inr (message_content fc)),
         [?p2], tm')"
    using choice requested ran
    by (simp add: handle_tool_execution_def Let_def split: sum.splits list.splits)
  have gr: "generate_response gen rt orc query conversation_history tools_arg (Some tm)
      = (case orc ?p2 of
           Inl e \<Rightarrow> Inl e
         | Inr final_response \<Rightarrow>
             (case choices final_response of
                [] \<Rightarrow> Inl IndexError
              | fc # _ \<Rightarrow> Inr (message_content fc)),
         [first_params, ?p2], Some tm')"
    using first choice finish handle by (simp add: generate_response_def Let_def fp)
  have len: "length results = length ?fcs"
    using ret by (rule tool_calls_return_length)
  show "let msgs2 = ?msgs2; p2 = base_params_with gen msgs2
        in generate_response gen rt orc query conversation_history tools_arg (Some tm)
             = (case orc p2 of
                  Inl e \<Rightarrow> Inl e
                | Inr final_response \<Rightarrow>
                    (case choices final_response of
                       [] \<Rightarrow> Inl IndexError
                     | fc # _ \<Rightarrow> Inr (message_content fc)),
                [first_params, p2], Some tm')
           \<and> param_tools p2 = None \<and> param_tool_choice p2 = None
           \<and> param_messages p2 = msgs2
           \<and> length results = length ?fcs"
    unfolding Let_def using gr len by (simp add: base_params_with_def)
next
  fix pre tc post results tm1 e tm2
  assume h: "tcs = pre @ tc # post \<and> call_type tc = ''function''
              \<and> tool_calls_return rt tm (filter (\<lambda>tc. call_type tc = ''function'') pre)
                    results tm1
              \<and> tool_call_raises rt tm1 tc e tm2"
  let ?msgs1 = "param_messages first_params @ [AssistantMessage (message_content c) (Some tcs)]"
  from h have "run_tool_calls rt tm tcs ?msgs1
        = run_tool_calls rt tm1 (tc # post)
            (?msgs1 @ map (\<lambda>(tool_result, tc). ToolMessage tool_result (call_id tc))
                       (zip results (filter (\<lambda>tc. call_type tc = ''function'') pre)))"
    using run_tool_calls_prefix [of rt tm pre results tm1 "tc # post" ?msgs1] by simp
  also have "\<dots> = (Inl e, tm2)"
    using h by (intro run_tool_calls_raise) simp_all
  finally have ran: "run_tool_calls rt tm tcs ?msgs1 = (Inl e, tm2)" .
  have handle: "handle_tool_execution gen rt orc resp first_params tm = (Inl e, [], tm2)"
    using choice requested ran by (simp add: handle_tool_execution_def Let_def)
  show "generate_response gen rt orc query conversation_history tools_arg (Some tm)
          = (Inl e, [first_params], Some tm2)"
    using first choice finish handle by (simp add: generate_response_def Let_def fp)
qed

theorem tool_round_two_calls_witness:
  "generate_response example_generator example_runtime (two_round_oracle [lesson_call])
      ''What is in lesson 2 of course X?'' None offered_tools (Some scenario_manager)
   = (Inr (Some ''Lesson 2 covers embeddings and retrieval.''),
      [initial_params example_generator ''What is in lesson 2 of course X?'' None offered_tools,
       base_params_with example_generator
         (initial_messages example_generator ''What is in lesson 2 of course X?'' None
          @ [AssistantMessage None (Some [lesson_call]),
             ToolMessage (''[X - Lesson 2]'' @ NL @ ''Lesson 2 covers embeddings.''
                          @ NL @ NL @ ''[X - Lesson 2]'' @ NL @ ''Lesson 2 covers retrieval.'')
               ''call_7''])],
      Some \<lparr> tools = [(''search_course_content'',
                       CourseSearchTool scenario_store [''X - Lesson 2'', ''X - Lesson 2''])] \<rparr>)
   \<and> generate_response example_generator example_runtime
        (two_round_oracle [custom_call, broken_call, lesson_call])
        ''What is in lesson 2 of course X?'' None offered_tools (Some scenario_manager)
   = (Inl ValueError,
      [initial_params example_generator ''What is in lesson 2 of course X?'' None offered_tools],
      Some scenario_manager)"
proof
  let ?q = "''What is in lesson 2 of course X?''"
  let ?p1 = "initial_params example_generator ?q None offered_tools"
  let ?c = "\<lparr> finish_reason = ''tool_calls'', message_content = None,
              message_tool_calls = Some [lesson_call] \<rparr>"
  let ?text = "''[X - Lesson 2]'' @ NL @ ''Lesson 2 covers embeddings.''
                 @ NL @ NL @ ''[X - Lesson 2]'' @ NL @ ''Lesson 2 covers retrieval.''"
  let ?tm = "\<lparr> tools = [(''search_course_content'',
                       CourseSearchTool scenario_store [''X - Lesson 2'', ''X - Lesson 2''])] \<rparr>"
  have first: "two_round_oracle [lesson_call] ?p1 = Inr \<lparr> choices = [?c] \<rparr>"
    by (simp add: two_round_oracle_def initial_params_def offered_tools_def)
  have choice: "choices \<lparr> choices = [?c] \<rparr> = ?c # []"
    by simp
  have finish: "finish_reason ?c = ''tool_calls''"
    by simp
  have requested: "message_tool_calls ?c = Some [lesson_call]"
    by simp
  have ex: "execute_tool example_runtime scenario_manager ''search_course_content''
              [(''query'', PStr ''lesson 2'')] = (Inr ?text, ?tm)"
    by (simp add: execute_tool_def scenario_manager_def binds_def dict_get_def
          CourseSearchTool_execute_def scenario_store_def scenario_results_def is_empty_def
          format_results_def lesson_link_of_def header_of_def source_of_def title_of_def
          lesson_suffix_def str_int_2)
  have ret: "tool_calls_return example_runtime scenario_manager
               (filter (\<lambda>tc. call_type tc = ''function'') [lesson_call]) [?text] ?tm"
    using ex by (simp add: lesson_call_def query_arguments_def example_runtime_def)
  have second: "two_round_oracle [lesson_call] (base_params_with example_generator msgs)
                = Inr final_answer" for msgs
    by (simp add: two_round_oracle_def base_params_with_def)
  have ct: "call_type lesson_call = ''function''"
    by (simp add: lesson_call_def)
  have cid: "call_id lesson_call = ''call_7''"
    by (simp add: lesson_call_def)
  have pm: "param_messages ?p1 = initial_messages example_generator ?q None"
    by (simp add: initial_params_def base_params_with_def offered_tools_def)
  from tool_round_two_calls
    [where orc = "two_round_oracle [lesson_call]" and gen = example_generator and query = ?q
       and conversation_history = None and tools_arg = offered_tools and first_params = ?p1
       and resp = "\<lparr> choices = [?c] \<rparr>" and c = ?c and cs = "[]"
       and tcs = "[lesson_call]" and rt = example_runtime and tm = scenario_manager,
     OF first refl choice finish requested] ret
  have "let msgs2 = param_messages ?p1
                 @ [AssistantMessage (message_content ?c) (Some [lesson_call])]
                 @ map (\<lambda>(tool_result, tc). ToolMessage tool_result (call_id tc))
                     (zip [?text] (filter (\<lambda>tc. call_type tc = ''function'') [lesson_call]));
            p2 = base_params_with example_generator msgs2
        in generate_response example_generator example_runtime (two_round_oracle [lesson_call])
             ?q None offered_tools (Some scenario_manager)
           = (case two_round_oracle [lesson_call] p2 of
                Inl e \<Rightarrow> Inl e
              | Inr final_response \<Rightarrow>
                  (case choices final_response of
                     [] \<Rightarrow> Inl IndexError
                   | fc # _ \<Rightarrow> Inr (message_content fc)),
              [?p1, p2], Some ?tm)
           \<and> param_tools p2 = None \<and> param_tool_choice p2 = None
           \<and> param_messages p2 = msgs2
           \<and> length [?text]
               = length (filter (\<lambda>tc. call_type tc = ''function'') [lesson_call])"
    by blast
  then show "generate_response example_generator example_runtime (two_round_oracle [lesson_call])
      ?q None offered_tools (Some scenario_manager)
   = (Inr (Some ''Lesson 2 covers embeddings and retrieval.''),
      [?p1,
       base_params_with example_generator
         (initial_messages example_generator ?q None
          @ [AssistantMessage None (Some [lesson_call]),
             ToolMessage ?text ''call_7''])],
      Some ?tm)"
    by (simp add: Let_def second final_answer_def ct cid pm)
next
  let ?q = "''What is in lesson 2 of course X?''"
  let ?p1 = "initial_params example_generator ?q None offered_tools"
  let ?tcs = "[custom_call, broken_call, lesson_call]"
  let ?c = "\<lparr> finish_reason = ''tool_calls'', message_content = None,
              message_tool_calls = Some ?tcs \<rparr>"
  have first: "two_round_oracle ?tcs ?p1 = Inr \<lparr> choices = [?c] \<rparr>"
    by (simp add: two_round_oracle_def initial_params_def offered_tools_def)
  have choice: "choices \<lparr> choices = [?c] \<rparr> = ?c # []"
    by simp
  have finish: "finish_reason ?c = ''tool_calls''"
    by simp
  have requested: "message_tool_calls ?c = Some ?tcs"
    by simp
  have split: "?tcs = [custom_call] @ broken_call # [lesson_call]"
    by simp
  have fn: "call_type broken_call = ''function''"
    by (simp add: broken_call_def)
  have before: "tool_calls_return example_runtime scenario_manager
                  (filter (\<lambda>tc. call_type tc = ''function'') [custom_call]) [] scenario_manager"
    by (simp add: custom_call_def)
  have raises: "tool_call_raises example_runtime scenario_manager broken_call ValueError
                  scenario_manager"
    by (simp add: tool_call_raises_def broken_call_def example_runtime_def query_arguments_def)
  from tool_round_two_calls
    [where orc = "two_round_oracle ?tcs" and gen = example_generator and query = ?q
       and conversation_history = None and tools_arg = offered_tools and first_params = ?p1
       and resp = "\<lparr> choices = [?c] \<rparr>" and c = ?c and cs = "[]"
       and tcs = ?tcs and rt = example_runtime and tm = scenario_manager,
     OF first refl choice finish requested] split fn before raises
  show "generate_response example_generator example_runtime (two_round_oracle ?tcs)
          ?q None offered_tools (Some scenario_manager)
        = (Inl ValueError, [?p1], Some scenario_manager)"
    by blast
qed

text \<open>
  Two calls on which the two-round property does not hold. A search call whose arguments
  are the empty object lacks the required \<open>query\<close>: the execution raises
  \<open>TypeError\<close>, nothing catches it, and the first oracle call is the only one. A
  tool call of type \<open>custom\<close> is skipped: two oracle calls are made, and the
  second message list holds no tool-result message for the requested call.
\<close>

theorem tool_round_not_always_two_calls:
  "generate_response example_generator example_runtime (two_round_oracle [search_call])
      ''What is in lesson 2 of course X?'' None offered_tools (Some scenario_manager)
   = (Inl TypeError,
      [initial_params example_generator ''What is in lesson 2 of course X?'' None offered_tools],
      Some scenario_manager)
   \<and> generate_response example_generator example_runtime (two_round_oracle [custom_call])
      ''What is in lesson 2 of course X?'' None offered_tools (Some scenario_manager)
   = (Inr (Some ''Lesson 2 covers embeddings and retrieval.''),
      [initial_params example_generator ''What is in lesson 2 of course X?'' None offered_tools,
       base_params_with example_generator
         (initial_messages example_generator ''What is in lesson 2 of course X?'' None
          @ [AssistantMessage None (Some [custom_call])])],
      Some scenario_manager)"
proof
  have ex: "execute_tool example_runtime scenario_manager ''search_course_content'' []
            = (Inl TypeError, scenario_manager)"
    by (simp add: execute_tool_def scenario_manager_def binds_def)
  show "generate_response example_generator example_runtime (two_round_oracle [search_call])
      ''What is in lesson 2 of course X?'' None offered_tools (Some scenario_manager)
   = (Inl TypeError,
      [initial_params example_generator ''What is in lesson 2 of course X?'' None offered_tools],
      Some scenario_manager)"
    using ex
    by (simp add: generate_response_def handle_tool_execution_def two_round_oracle_def
          initial_params_def base_params_with_def offered_tools_def search_call_def
          example_runtime_def)
next
  show "generate_response example_generator example_runtime (two_round_oracle [custom_call])
      ''What is in lesson 2 of course X?'' None offered_tools (Some scenario_manager)
   = (Inr (Some ''Lesson 2 covers embeddings and retrieval.''),
      [initial_params example_generator ''What is in lesson 2 of course X?'' None offered_tools,
       base_params_with example_generator
         (initial_messages example_generator ''What is in lesson 2 of course X?'' None
          @ [AssistantMessage None (Some [custom_call])])],
      Some scenario_manager)"
    by (simp add: generate_response_def handle_tool_execution_def two_round_oracle_def
          initial_params_def base_params_with_def offered_tools_def custom_call_def
          final_answer_def)
qed

section \<open>What changes the sources a tool holds\<close>

lemma execute_changes_only_search:
  "snd (execute rt t kwargs) = t
   \<or> (\<exists>st prev new. t = CourseSearchTool st prev
          \<and> snd (execute rt t kwargs) = CourseSearchTool st new)"
  by (cases t) (auto split: prod.splits)

lemma search_execute_overwrites:
  "snd (CourseSearchTool_execute st prev q c l) = prev
   \<or> (\<forall>prev'. snd (CourseSearchTool_execute st prev' q c l)
                 = snd (CourseSearchTool_execute st prev q c l))"
  by (auto simp: CourseSearchTool_execute_def format_results_def split: sum.splits prod.splits)

lemma execute_tool_frame:
  "k \<noteq> name \<Longrightarrow> map_of (tools (snd (execute_tool rt tm name kwargs))) k = map_of (tools tm) k"
  by (auto simp: execute_tool_def update_conv' split: option.splits prod.splits)

lemma run_tool_calls_frame:
  "map_of (tools (snd (run_tool_calls rt tm tcs msgs))) k \<noteq> map_of (tools tm) k \<Longrightarrow>
   \<exists>tc. tc \<in> set tcs \<and> function_name tc = k \<and> call_type tc = ''function''"
proof (induction tcs arbitrary: tm msgs)
  case Nil
  then show ?case by simp
next
  case (Cons tc rest)
  show ?case
  proof (cases "call_type tc = ''function'' \<and> function_name tc = k")
    case True
    then show ?thesis by auto
  next
    case False
    have step: "map_of (tools (snd (execute_tool rt tm (function_name tc) kw))) k
                = map_of (tools tm) k" if "call_type tc = ''function''" for kw
      using False that by (simp add: execute_tool_frame)
    have "\<exists>tm1 msgs1. map_of (tools tm1) k = map_of (tools tm) k
            \<and> (snd (run_tool_calls rt tm (tc # rest) msgs) = tm1
                \<or> snd (run_tool_calls rt tm (tc # rest) msgs)
                    = snd (run_tool_calls rt tm1 rest msgs1))"
    proof (cases "call_type tc = ''function''")
      case nf: False
      then show ?thesis by auto
    next
      case f: True
      show ?thesis
      proof (cases "json_loads rt (function_arguments tc)")
        case (Inl e)
        with f show ?thesis by auto
      next
        case (Inr doc)
        show ?thesis
        proof (cases doc)
          case (JObject kw)
          obtain r tm1 where ex: "execute_tool rt tm (function_name tc) kw = (r, tm1)"
            by (cases "execute_tool rt tm (function_name tc) kw")
          with step [OF f, of kw] have same: "map_of (tools tm1) k = map_of (tools tm) k"
            by simp
          show ?thesis
          proof (cases r)
            case (Inl e)
            with f Inr JObject ex same show ?thesis by auto
          next
            case res: (Inr tool_result)
            with f Inr JObject ex
            have "snd (run_tool_calls rt tm (tc # rest) msgs)
                  = snd (run_tool_calls rt tm1 rest
                           (msgs @ [ToolMessage tool_result (call_id tc)]))"
              by simp
            with same show ?thesis by blast
          qed
        next
          case (JArray ls)
          with f Inr show ?thesis by auto
        next
          case (JScalar v)
          with f Inr show ?thesis by auto
        qed
      qed
    qed
    then obtain tm1 msgs1 where same: "map_of (tools tm1) k = map_of (tools tm) k"
      and alt: "snd (run_tool_calls rt tm (tc # rest) msgs) = tm1
                \<or> snd (run_tool_calls rt tm (tc # rest) msgs)
                    = snd (run_tool_calls rt tm1 rest msgs1)"
      by blast
    from alt Cons.prems same
    have "map_of (tools (snd (run_tool_calls rt tm1 rest msgs1))) k \<noteq> map_of (tools tm1) k"
      by auto
    from Cons.IH [OF this] show ?thesis by auto
  qed
qed

lemma handle_tool_execution_frame:
  assumes "choices resp = c # cs"
    and "map_of (tools (snd (snd (handle_tool_execution gen rt orc resp api tm)))) k
         \<noteq> map_of (tools tm) k"
  shows "\<exists>tcs tc. message_tool_calls c = Some tcs \<and> tc \<in> set tcs
           \<and> function_name tc = k \<and> call_type tc = ''function''"
proof (cases "message_tool_calls c")
  case None
  with assms show ?thesis by (simp add: handle_tool_execution_def)
next
  case (Some tcs)
  let ?msgs = "param_messages api @ [AssistantMessage (message_content c) (Some tcs)]"
  have "snd (snd (handle_tool_execution gen rt orc resp api tm))
        = snd (run_tool_calls rt tm tcs ?msgs)"
    using assms(1) Some
    by (simp add: handle_tool_execution_def Let_def split: prod.splits sum.splits list.splits)
  with assms(2) run_tool_calls_frame [of rt tm tcs ?msgs k] Some show ?thesis by auto
qed

lemma generate_response_frame:
  assumes "generate_response gen rt orc query conversation_history tools_arg (Some tm)
           = (r, calls, tmo)"
  shows "\<exists>tm'. tmo = Some tm'
           \<and> (map_of (tools tm') k \<noteq> map_of (tools tm) k \<longrightarrow>
                (\<exists>resp c cs tcs tc.
                   orc (initial_params gen query conversation_history tools_arg) = Inr resp
                   \<and> choices resp = c # cs \<and> finish_reason c = ''tool_calls''
                   \<and> message_tool_calls c = Some tcs \<and> tc \<in> set tcs
                   \<and> function_name tc = k \<and> call_type tc = ''function''))"
proof (cases "orc (initial_params gen query conversation_history tools_arg)")
  case (Inl e)
  with assms show ?thesis by (auto simp: generate_response_def)
next
  case (Inr resp)
  show ?thesis
  proof (cases "choices resp")
    case Nil
    with Inr assms show ?thesis by (auto simp: generate_response_def)
  next
    case (Cons c cs)
    show ?thesis
    proof (cases "finish_reason c = ''tool_calls''")
      case False
      with Inr Cons assms show ?thesis by (auto simp: generate_response_def)
    next
      case True
      let ?api = "initial_params gen query conversation_history tools_arg"
      from Inr Cons True assms
      have tmo: "tmo = Some (snd (snd (handle_tool_execution gen rt orc resp ?api tm)))"
        by (auto simp: generate_response_def Let_def split: prod.splits)
      show ?thesis
        using tmo handle_tool_execution_frame [OF Cons, of gen rt orc ?api tm k] Inr Cons True
        by auto
    qed
  qed
qed


lemma reset_sources_lookup:
  "map_of (tools (reset_sources tm)) k = map_option reset_tool (map_of (tools tm) k)"
  by (simp add: reset_sources_def map_of_map)

lemma reset_tool_sources: "last_sources (reset_tool t) = map_option (\<lambda>srcs. []) (last_sources t)"
  by (cases t) (auto split: option.splits)

lemma execute_tool_target:
  "map_of (tools tm) name = Some t \<Longrightarrow>
   map_of (tools (snd (execute_tool rt tm name kwargs))) name = Some (snd (execute rt t kwargs))"
  using execute_collision_keeps_tool [of kwargs rt t]
  by (auto simp: execute_tool_def update_conv' split: prod.splits)

lemma register_tool_frame:
  "register_tool tm t = Inr tm' \<Longrightarrow>
   map_of (tools tm') k = Some t \<or> map_of (tools tm') k = map_of (tools tm) k"
  by (auto simp: register_tool_def Let_def update_conv' split: if_splits)

lemma lesson_round_run:
  "generate_response example_generator example_runtime (two_round_oracle [lesson_call])
      ''What is in lesson 2 of course X?'' None offered_tools (Some scenario_manager)
   = (Inr (Some ''Lesson 2 covers embeddings and retrieval.''),
      [initial_params example_generator ''What is in lesson 2 of course X?'' None offered_tools,
       base_params_with example_generator
         (initial_messages example_generator ''What is in lesson 2 of course X?'' None
          @ [AssistantMessage None (Some [lesson_call]),
             ToolMessage (''[X - Lesson 2]'' @ NL @ ''Lesson 2 covers embeddings.''
                          @ NL @ NL @ ''[X - Lesson 2]'' @ NL @ ''Lesson 2 covers retrieval.'')
               ''call_7''])],
      Some \<lparr> tools = [(''search_course_content'',
                       CourseSearchTool scenario_store [''X - Lesson 2'', ''X - Lesson 2''])] \<rparr>)"
proof -
  have ex: "execute_tool example_runtime scenario_manager ''search_course_content''
              [(''query'', PStr ''lesson 2'')]
            = (Inr (''[X - Lesson 2]'' @ NL @ ''Lesson 2 covers embeddings.''
                    @ NL @ NL @ ''[X - Lesson 2]'' @ NL @ ''Lesson 2 covers retrieval.''),
               \<lparr> tools = [(''search_course_content'',
                       CourseSearchTool scenario_store [''X - Lesson 2'', ''X - Lesson 2''])] \<rparr>)"
    by (simp add: execute_tool_def scenario_manager_def binds_def dict_get_def
          CourseSearchTool_execute_def scenario_store_def scenario_results_def is_empty_def
          format_results_def lesson_link_of_def header_of_def source_of_def title_of_def
          lesson_suffix_def str_int_2)
  show ?thesis
    using ex
    by (simp add: generate_response_def handle_tool_execution_def two_round_oracle_def
          initial_params_def base_params_with_def offered_tools_def lesson_call_def
          query_arguments_def example_runtime_def final_answer_def)
qed

text \<open>
  C9. The operations of the layer and what they do to \<open>last_sources\<close>.
  \<^item> \<open>reset_sources\<close> resets every registered tool, which sets \<open>last_sources\<close> to
    the empty list where the attribute exists.
  \<^item> An execution changes nothing in a tool other than the search tool's
    \<open>last_sources\<close>; there it either keeps the value or stores one that does not
    depend on the previous value, so the previous value is replaced, not extended.
  \<^item> \<open>execute_tool\<close> executes the tool registered under the name and leaves the
    tool under every other name as it was.
  \<^item> \<open>register_tool\<close> stores the tool as it is given and leaves every other entry
    as it was.
  \<^item> \<open>generate_response\<close> changes the tool under a name only when the first
    response requested a call of type \<open>function\<close> of that name.
  \<open>get_last_sources\<close> and \<open>get_tool_definitions\<close> return no registry: they read.
\<close>

theorem last_sources_frame:
  "last_sources (reset_tool t) = map_option (\<lambda>srcs. []) (last_sources t)
   \<and> map_of (tools (reset_sources tm)) k = map_option reset_tool (map_of (tools tm) k)
   \<and> (snd (execute rt t kwargs) = t
       \<or> (\<exists>st prev new. t = CourseSearchTool st prev
             \<and> snd (execute rt t kwargs) = CourseSearchTool st new))
   \<and> (snd (CourseSearchTool_execute st prev q course_name lesson_num) = prev
       \<or> (\<forall>prev'. snd (CourseSearchTool_execute st prev' q course_name lesson_num)
                    = snd (CourseSearchTool_execute st prev q course_name lesson_num)))
   \<and> (map_of (tools tm) name = Some t \<longrightarrow>
        map_of (tools (snd (execute_tool rt tm name kwargs))) name
          = Some (snd (execute rt t kwargs)))
   \<and> (k \<noteq> name \<longrightarrow>
        map_of (tools (snd (execute_tool rt tm name kwargs))) k = map_of (tools tm) k)
   \<and> (register_tool tm t = Inr tm' \<longrightarrow>
        map_of (tools tm') k = Some t \<or> map_of (tools tm') k = map_of (tools tm) k)
   \<and> (generate_response gen rt orc query conversation_history tools_arg (Some tm)
         = (r, calls, tmo) \<longrightarrow>
        (\<exists>tm2. tmo = Some tm2
           \<and> (map_of (tools tm2) k \<noteq> map_of (tools tm) k \<longrightarrow>
                (\<exists>resp c cs tcs tc.
                   orc (initial_params gen query conversation_history tools_arg) = Inr resp
                   \<and> choices resp = c # cs \<and> finish_reason c = ''tool_calls''
                   \<and> message_tool_calls c = Some tcs \<and> tc \<in> set tcs
                   \<and> function_name tc = k \<and> call_type tc = ''function''))))"
  using reset_tool_sources [of t] reset_sources_lookup [of tm k]
    execute_changes_only_search [of rt t kwargs]
    search_execute_overwrites [of st prev q course_name lesson_num]
    execute_tool_target [of tm name t rt kwargs]
    execute_tool_frame [of k name rt tm kwargs]
    register_tool_frame [of tm t tm' k]
    generate_response_frame [of gen rt orc query conversation_history tools_arg tm r calls tmo k]
  by blast

theorem last_sources_frame_witness:
  "last_sources (reset_tool (CourseSearchTool linked_store [''stale''])) = Some []
   \<and> map_of (tools (snd (execute_tool example_runtime linked_manager ''search_course_content''
                           [(''query'', PStr ''lesson 2'')]))) ''get_course_outline''
     = Some (CourseOutlineTool linked_store)
   \<and> (\<exists>resp c cs tcs tc.
         two_round_oracle [lesson_call]
           (initial_params example_generator ''What is in lesson 2 of course X?'' None
              offered_tools) = Inr resp
         \<and> choices resp = c # cs \<and> finish_reason c = ''tool_calls''
         \<and> message_tool_calls c = Some tcs \<and> tc \<in> set tcs
         \<and> function_name tc = ''search_course_content'' \<and> call_type tc = ''function'')"
proof -
  let ?q = "''What is in lesson 2 of course X?''"
  let ?tm2 = "\<lparr> tools = [(''search_course_content'',
                 CourseSearchTool scenario_store [''X - Lesson 2'', ''X - Lesson 2''])] \<rparr>"
  have a: "last_sources (reset_tool (CourseSearchTool linked_store [''stale''])) = Some []"
    using last_sources_frame [where t = "CourseSearchTool linked_store [''stale'']"]
    by simp
  have ne: "''get_course_outline'' \<noteq> ''search_course_content''"
    by simp
  have b: "map_of (tools (snd (execute_tool example_runtime linked_manager
                                 ''search_course_content'' [(''query'', PStr ''lesson 2'')])))
             ''get_course_outline'' = Some (CourseOutlineTool linked_store)"
    using last_sources_frame
      [where k = "''get_course_outline''" and name = "''search_course_content''"
         and tm = linked_manager and rt = example_runtime
         and kwargs = "[(''query'', PStr ''lesson 2'')]"] ne
    by (simp add: linked_manager_def)
  have changed: "map_of (tools ?tm2) ''search_course_content''
                 \<noteq> map_of (tools scenario_manager) ''search_course_content''"
    by (simp add: scenario_manager_def)
  from last_sources_frame
    [where gen = example_generator and rt = example_runtime
       and orc = "two_round_oracle [lesson_call]" and query = ?q
       and conversation_history = None and tools_arg = offered_tools
       and tm = scenario_manager and tmo = "Some ?tm2" and k = "''search_course_content''"]
    lesson_round_run changed
  have c: "\<exists>resp c cs tcs tc.
         two_round_oracle [lesson_call]
           (initial_params example_generator ?q None offered_tools) = Inr resp
         \<and> choices resp = c # cs \<and> finish_reason c = ''tool_calls''
         \<and> message_tool_calls c = Some tcs \<and> tc \<in> set tcs
         \<and> function_name tc = ''search_course_content'' \<and> call_type tc = ''function''"
    by blast
  from a b c show ?thesis by blast
qed

end
